theory Spec2Isabelle
  imports Complex_Main
begin

section \<open>Values of the request and of the responses\<close>

text \<open>
  The backend is an Express application over two Mongoose collections. A parsed JSON
  request body is an object whose fields hold arbitrary JSON values; a field that is
  absent reads as \<open>undefined\<close>. A number is the finite double the body parser produced, read
  as a real: the handlers only test it with \<open>typeof\<close> and compare it with zero. The
  infinities, which a literal out of the double range parses to, are not represented.
\<close>

datatype json =
    JUndefined
  | JNull
  | JBool bool
  | JNum real
  | JStr string
  | JArr "json list"
  | JObj "(string \<times> json) list"

type_synonym obj = "(string \<times> json) list"

text \<open>Property access \<open>o.k\<close> on a parsed object (its keys are distinct).\<close>

definition field :: "obj \<Rightarrow> string \<Rightarrow> json" where
  "field b k = (case map_of b k of None \<Rightarrow> JUndefined | Some v \<Rightarrow> v)"

text \<open>JavaScript truthiness, as \<open>!x\<close>, \<open>x && y\<close>, \<open>x || y\<close> and \<open>x ? a : b\<close> read it.\<close>

fun truthy :: "json \<Rightarrow> bool" where
  "truthy JUndefined = False"
| "truthy JNull = False"
| "truthy (JBool b) = b"
| "truthy (JNum n) = (n \<noteq> 0)"
| "truthy (JStr s) = (s \<noteq> [])"
| "truthy (JArr xs) = True"
| "truthy (JObj kvs) = True"

text \<open>
  An exception is known to the handlers by its \<open>error.name\<close>, on which every \<open>catch\<close>
  block of the repository dispatches, and by the messages of \<open>error.errors\<close>, which a
  validation error carries. The message of a failed cast quotes the value; it is kept as
  the path that failed.
\<close>

datatype detail = Msg string | CastFailed string

datatype exn = Exn string "detail list"

definition TypeError :: exn where
  "TypeError = Exn ''TypeError'' []"

definition name_of :: "exn \<Rightarrow> string" where
  "name_of e = (case e of Exn n ds \<Rightarrow> n)"

definition errors_of :: "exn \<Rightarrow> detail list" where
  "errors_of e = (case e of Exn n ds \<Rightarrow> ds)"

text \<open>
  \<open>String.prototype.trim\<close> on the six ASCII white space characters; the white space
  beyond ASCII, which it strips as well, is not.
\<close>

definition is_space :: "char \<Rightarrow> bool" where
  "is_space c = (c \<in> set [CHR '' '', CHR 0x09, CHR 0x0A, CHR 0x0B, CHR 0x0C, CHR 0x0D])"

definition trim :: "string \<Rightarrow> string" where
  "trim s = rev (dropWhile is_space (rev (dropWhile is_space s)))"

text \<open>\<open>s.split(' ')\<close>: the pieces between single occurrences of the separator.\<close>

fun split_on :: "char \<Rightarrow> string \<Rightarrow> string list" where
  "split_on c [] = [[]]"
| "split_on c (x # xs) =
     (if x = c then [] # split_on c xs
      else (case split_on c xs of [] \<Rightarrow> [[x]] | w # ws \<Rightarrow> (x # w) # ws))"

definition nth_opt :: "'a list \<Rightarrow> nat \<Rightarrow> 'a option" where
  "nth_opt xs i = (if i < length xs then Some (xs ! i) else None)"

section \<open>Documents, requests, responses\<close>

type_synonym oid = string

text \<open>
  The user document, with the fields the routes read. \<open>uid\<close> is \<open>_id.toString()\<close>.
\<close>

record user =
  uid :: oid
  name :: string
  email :: string
  firstName :: string
  lastName :: string
  role :: string
  isActive :: bool

text \<open>
  The data document of \<open>dataSchema\<close>. \<open>did\<close> is its \<open>_id\<close>, \<open>source\<close> and \<open>version\<close> are
  the two strings of \<open>metadata\<close>; a primed name is the schema's name without the prime.
  \<open>isPublic\<close> may hold \<open>null\<close> (\<open>None\<close>). The three dates (\<open>createdAt\<close>, \<open>updatedAt\<close>,
  \<open>metadata.lastUpdated\<close>) are clock readings and are left out.
\<close>

record data =
  did :: oid
  title :: string
  description :: string
  category :: string
  value' :: real
  unit' :: string
  status' :: string
  tags :: "string list"
  source :: string
  version :: string
  user' :: oid
  isPublic :: "bool option"

text \<open>The two collections, in their natural order.\<close>

record db =
  users :: "user list"
  datas :: "data list"

text \<open>
  A data document after \<open>populate('user', 'name email')\<close>: its \<open>user\<close> path holds the
  \<open>_id\<close>, name and email of the referenced user, or \<open>null\<close> when no such user exists.
\<close>

type_synonym populated = "(oid \<times> string \<times> string) option"
type_synonym view = "data \<times> populated"

definition populate :: "db \<Rightarrow> data \<Rightarrow> view" where
  "populate st d =
     (d, map_option (\<lambda>u. (uid u, name u, email u)) (find (\<lambda>u. uid u = user' d) (users st)))"

text \<open>
  What a route reads of the Express request: the \<open>authorization\<close> header, the \<open>:id\<close>
  path parameter, the query string, the parsed body and \<open>req.user\<close>, which the
  authentication middleware sets.
\<close>

record request =
  authorization :: "string option"
  params_id :: string
  query :: "(string \<times> string) list"
  body :: obj
  user :: "user option"

text \<open>
  JavaScript numbers that reach a response: \<open>parseInt\<close> yields an integer or \<open>NaN\<close>
  (\<open>None\<close>); a division by zero yields \<open>Infinity\<close> or \<open>NaN\<close>.
\<close>

datatype jsnum = Num int | NaN | Infinity

record pagination =
  page :: "int option"
  limit :: "int option"
  total :: nat
  pages :: jsnum

text \<open>The JSON bodies the routes send, and the response with its status code.\<close>

datatype sent =
    ErrorBody string
  | ErrorDetails string "detail list"
  | Message string
  | DataMessage string "view option"
  | DataOnly view
  | DataPage "view list" pagination
  | UserPage "user list" pagination

record response =
  status :: nat
  sent :: sent

definition err :: "nat \<Rightarrow> string \<Rightarrow> response" where
  "err c m = \<lparr>status = c, sent = ErrorBody m\<rparr>"

text \<open>
  A middleware either ends the request with a response, or calls \<open>next()\<close> on the request
  as it left it, or throws.
\<close>

datatype step = Respond response | Next request | Throw exn

section \<open>The middleware\<close>

text \<open>
  \<open>authHeader && authHeader.split(' ')[1]\<close>: \<open>None\<close> is \<open>undefined\<close>. An empty header is
  falsy and is the token itself.
\<close>

definition token_of :: "string option \<Rightarrow> string option" where
  "token_of authHeader =
     (case authHeader of
        None \<Rightarrow> None
      | Some h \<Rightarrow> if h = [] then Some [] else nth_opt (split_on CHR '' '' h) 1)"

text \<open>
  \<open>authenticateToken\<close>. The token codec is outside the repository: \<open>verify t\<close> is what
  \<open>jwt.verify(t, process.env.JWT_SECRET)\<close> returns (the decoded payload) or throws, and
  \<open>findById i\<close> is what \<open>User.findById(i)\<close> resolves to (\<open>None\<close> is \<open>null\<close>) or rejects
  with. \<open>on_auth_error\<close> is the \<open>catch\<close> block.
\<close>

definition on_auth_error :: "exn \<Rightarrow> response" where
  "on_auth_error e =
     (if name_of e = ''JsonWebTokenError'' then err 401 ''Invalid token.''
      else if name_of e = ''TokenExpiredError'' then err 401 ''Token expired.''
      else err 500 ''Internal server error during authentication.'')"

definition authenticateToken ::
  "(string \<Rightarrow> exn + obj) \<Rightarrow> (json \<Rightarrow> exn + user option) \<Rightarrow> request \<Rightarrow> step" where
  "authenticateToken verify findById req =
     (case token_of (authorization req) of
        None \<Rightarrow> Respond (err 401 ''Access denied. No token provided.'')
      | Some token \<Rightarrow>
          if token = [] then Respond (err 401 ''Access denied. No token provided.'')
          else
            (case verify token of
               Inl e \<Rightarrow> Respond (on_auth_error e)
             | Inr decoded \<Rightarrow>
                 (case findById (field decoded ''id'') of
                    Inl e \<Rightarrow> Respond (on_auth_error e)
                  | Inr None \<Rightarrow> Respond (err 401 ''Invalid token. User not found.'')
                  | Inr (Some u) \<Rightarrow>
                      if \<not> isActive u then Respond (err 401 ''Account is deactivated.'')
                      else Next (req\<lparr>user := Some u\<rparr>))))"

text \<open>\<open>requireAdmin\<close>.\<close>

definition requireAdmin :: "request \<Rightarrow> step" where
  "requireAdmin req =
     (case user req of
        None \<Rightarrow> Respond (err 401 ''Authentication required.'')
      | Some u \<Rightarrow>
          if role u \<noteq> ''admin'' then Respond (err 403 ''Admin access required.'')
          else Next req)"

text \<open>
  \<open>requireOwnership(resourceUserId)\<close>. The argument is \<open>None\<close> when it is \<open>null\<close> or
  \<open>undefined\<close>; \<open>resourceUserId.toString()\<close> then throws a \<open>TypeError\<close>, after the test
  of \<open>req.user\<close>.
\<close>

definition requireOwnership :: "oid option \<Rightarrow> request \<Rightarrow> step" where
  "requireOwnership resourceUserId req =
     (case user req of
        None \<Rightarrow> Respond (err 401 ''Authentication required.'')
      | Some u \<Rightarrow>
          (case resourceUserId of
             None \<Rightarrow> Throw TypeError
           | Some r \<Rightarrow>
               if uid u = r \<or> role u = ''admin'' then Next req
               else Respond (err 403 ''Access denied. You can only modify your own resources.'')))"


section \<open>The store\<close>

text \<open>
  What the routes need of their surroundings and the repository does not fix:
  \<^item> \<open>fails k\<close>: the \<open>k\<close>-th awaited store operation of the request rejects (the store is
    unreachable);
  \<^item> \<open>castObjectId\<close>: the cast of a value to an \<open>ObjectId\<close>, \<open>None\<close> when it fails;
  \<^item> \<open>newId\<close>: the \<open>_id\<close> generated for a new document;
  \<^item> \<open>numToString\<close>: \<open>Number.prototype.toString\<close>;
  \<^item> \<open>regExp p\<close>: the test of \<open>new RegExp(p, 'i')\<close>, \<open>None\<close> when the pattern is malformed;
  \<^item> \<open>sortData\<close>, \<open>sortUsers\<close>: the store's \<open>sort\<close> by a path and a direction;
  \<^item> \<open>nanOption\<close>: the number the store reads a \<open>NaN\<close> \<open>limit\<close> or \<open>skip\<close> as, \<open>None\<close> when
    it rejects the query.
\<close>

record env =
  fails :: "nat \<Rightarrow> bool"
  castObjectId :: "json \<Rightarrow> oid option"
  newId :: oid
  numToString :: "real \<Rightarrow> string"
  regExp :: "string \<Rightarrow> (string \<Rightarrow> bool) option"
  sortData :: "string \<Rightarrow> bool \<Rightarrow> data list \<Rightarrow> data list"
  sortUsers :: "user list \<Rightarrow> user list"
  nanOption :: "int option"

definition unreachable :: exn where
  "unreachable = Exn ''MongoNetworkError'' []"

definition rejected :: exn where
  "rejected = Exn ''MongoServerError'' []"

definition CastError :: exn where
  "CastError = Exn ''CastError'' []"

text \<open>
  \<open>Model.findById(id)\<close>: \<open>null\<close> and \<open>undefined\<close> find nothing, a value that is not an
  \<open>ObjectId\<close> is a \<open>CastError\<close> raised before the store is asked.
\<close>

definition User_findById :: "env \<Rightarrow> nat \<Rightarrow> db \<Rightarrow> json \<Rightarrow> exn + user option" where
  "User_findById ev k st i =
     (if i = JUndefined \<or> i = JNull then (if fails ev k then Inl unreachable else Inr None)
      else
        (case castObjectId ev i of
           None \<Rightarrow> Inl CastError
         | Some x \<Rightarrow>
             if fails ev k then Inl unreachable
             else Inr (find (\<lambda>u. uid u = x) (users st))))"

definition Data_findById :: "env \<Rightarrow> nat \<Rightarrow> db \<Rightarrow> string \<Rightarrow> exn + data option" where
  "Data_findById ev k st i =
     (case castObjectId ev (JStr i) of
        None \<Rightarrow> Inl CastError
      | Some x \<Rightarrow>
          if fails ev k then Inl unreachable
          else Inr (find (\<lambda>d. did d = x) (datas st)))"

text \<open>\<open>findByIdAndDelete\<close> removes one document, \<open>deleteMany\<close> every match.\<close>

fun delete_first :: "('a \<Rightarrow> bool) \<Rightarrow> 'a list \<Rightarrow> 'a list" where
  "delete_first P [] = []"
| "delete_first P (x # xs) = (if P x then xs else x # delete_first P xs)"

definition Data_findByIdAndDelete :: "env \<Rightarrow> nat \<Rightarrow> db \<Rightarrow> string \<Rightarrow> exn + db" where
  "Data_findByIdAndDelete ev k st i =
     (case castObjectId ev (JStr i) of
        None \<Rightarrow> Inl CastError
      | Some x \<Rightarrow>
          if fails ev k then Inl unreachable
          else Inr (st\<lparr>datas := delete_first (\<lambda>d. did d = x) (datas st)\<rparr>))"

definition Data_deleteMany_user :: "env \<Rightarrow> nat \<Rightarrow> db \<Rightarrow> oid \<Rightarrow> exn + db" where
  "Data_deleteMany_user ev k st u =
     (if fails ev k then Inl unreachable
      else Inr (st\<lparr>datas := filter (\<lambda>d. user' d \<noteq> u) (datas st)\<rparr>))"

definition User_findByIdAndDelete :: "env \<Rightarrow> nat \<Rightarrow> db \<Rightarrow> oid \<Rightarrow> exn + db" where
  "User_findByIdAndDelete ev k st u =
     (if fails ev k then Inl unreachable
      else Inr (st\<lparr>users := delete_first (\<lambda>x. uid x = u) (users st)\<rparr>))"

text \<open>
  \<open>limit\<close> and \<open>skip\<close> of a query, applied after the sort: a limit of zero is no limit, a
  negative one stands for its absolute value, a negative skip is rejected.
\<close>

definition store_num :: "env \<Rightarrow> int option \<Rightarrow> int option" where
  "store_num ev n = (case n of None \<Rightarrow> nanOption ev | Some i \<Rightarrow> Some i)"

definition limit_docs :: "int \<Rightarrow> 'a list \<Rightarrow> 'a list" where
  "limit_docs l xs = (if l = 0 then xs else take (nat \<bar>l\<bar>) xs)"

definition window :: "env \<Rightarrow> int option \<Rightarrow> int option \<Rightarrow> 'a list \<Rightarrow> exn + 'a list" where
  "window ev lm sk xs =
     (case store_num ev lm of
        None \<Rightarrow> Inl rejected
      | Some l \<Rightarrow>
          (case store_num ev sk of
             None \<Rightarrow> Inl rejected
           | Some s \<Rightarrow> if s < 0 then Inl rejected else Inr (limit_docs l (drop (nat s) xs))))"

section \<open>Query parameters\<close>

text \<open>
  \<open>parseInt(s)\<close> without a radix: leading white space, a sign, a \<open>0x\<close> prefix, then the
  longest run of digits; \<open>NaN\<close> (\<open>None\<close>) when the run is empty. Minus zero is zero, and
  the value is the exact integer, which JavaScript rounds to a double beyond \<open>2^53\<close>.
\<close>

definition digit_of :: "char \<Rightarrow> nat option" where
  "digit_of c =
     (let n = (of_char c :: nat) in
      if 48 \<le> n \<and> n \<le> 57 then Some (n - 48)
      else if 97 \<le> n \<and> n \<le> 122 then Some (n - 87)
      else if 65 \<le> n \<and> n \<le> 90 then Some (n - 55)
      else None)"

fun digits :: "nat \<Rightarrow> string \<Rightarrow> nat list" where
  "digits r [] = []"
| "digits r (c # cs) =
     (case digit_of c of
        None \<Rightarrow> []
      | Some d \<Rightarrow> if d < r then d # digits r cs else [])"

fun strip_sign :: "string \<Rightarrow> bool \<times> string" where
  "strip_sign [] = (False, [])"
| "strip_sign (c # cs) =
     (if c = CHR ''-'' then (True, cs)
      else if c = CHR ''+'' then (False, cs)
      else (False, c # cs))"

fun strip_prefix :: "string \<Rightarrow> nat \<times> string" where
  "strip_prefix (a # b # cs) =
     (if a = CHR ''0'' \<and> (b = CHR ''x'' \<or> b = CHR ''X'') then (16, cs) else (10, a # b # cs))"
| "strip_prefix cs = (10, cs)"

definition parseInt :: "string \<Rightarrow> int option" where
  "parseInt s =
     (case strip_sign (dropWhile is_space s) of
        (neg, t) \<Rightarrow>
          (case strip_prefix t of
             (r, u) \<Rightarrow>
               (let ds = digits r u;
                    m = int (foldl (\<lambda>a d. a * r + d) 0 ds)
                in if ds = [] then None else Some (if neg then - m else m))))"

text \<open>\<open>const { k = d } = req.query\<close> followed by \<open>parseInt(k)\<close>, for a numeric default.\<close>

definition int_param :: "(string \<times> string) list \<Rightarrow> string \<Rightarrow> int \<Rightarrow> int option" where
  "int_param q k d = (case map_of q k of None \<Rightarrow> Some d | Some s \<Rightarrow> parseInt s)"

definition skip_of :: "int option \<Rightarrow> int option \<Rightarrow> int option" where
  "skip_of p l =
     (case p of
        None \<Rightarrow> None
      | Some a \<Rightarrow> (case l of None \<Rightarrow> None | Some b \<Rightarrow> Some ((a - 1) * b)))"

text \<open>\<open>Math.ceil(total / parseInt(limit))\<close>, the quotient taken exactly.\<close>

definition ceil_div :: "nat \<Rightarrow> int option \<Rightarrow> jsnum" where
  "ceil_div t l =
     (case l of
        None \<Rightarrow> NaN
      | Some b \<Rightarrow>
          if b = 0 then (if t = 0 then NaN else Infinity)
          else Num \<lceil>real t / real_of_int b\<rceil>)"

definition mk_pagination :: "int option \<Rightarrow> int option \<Rightarrow> nat \<Rightarrow> pagination" where
  "mk_pagination p l t = \<lparr>page = p, limit = l, total = t, pages = ceil_div t l\<rparr>"

section \<open>The data schema\<close>

definition validCategories :: "string list" where
  "validCategories = [''analytics'', ''reports'', ''insights'', ''metrics'', ''other'']"

definition validStatuses :: "string list" where
  "validStatuses = [''active'', ''inactive'', ''pending'']"

text \<open>
  The casts of the schema types \<open>Boolean\<close> and \<open>String\<close>. The outer \<open>None\<close> is a failed
  cast, \<open>Some None\<close> is \<open>null\<close>.
\<close>

definition castBoolean :: "json \<Rightarrow> bool option option" where
  "castBoolean j =
     (case j of
        JBool b \<Rightarrow> Some (Some b)
      | JStr s \<Rightarrow>
          if s \<in> set [''true'', ''1'', ''yes''] then Some (Some True)
          else if s \<in> set [''false'', ''0'', ''no''] then Some (Some False)
          else None
      | JNum n \<Rightarrow> if n = 1 then Some (Some True) else if n = 0 then Some (Some False) else None
      | JNull \<Rightarrow> Some None
      | JUndefined \<Rightarrow> Some None
      | JArr xs \<Rightarrow> None
      | JObj kvs \<Rightarrow> None)"

definition castString :: "env \<Rightarrow> json \<Rightarrow> string option option" where
  "castString ev j =
     (case j of
        JStr s \<Rightarrow> Some (Some s)
      | JNum n \<Rightarrow> Some (Some (numToString ev n))
      | JBool b \<Rightarrow> Some (Some (if b then ''true'' else ''false''))
      | JNull \<Rightarrow> Some None
      | JUndefined \<Rightarrow> Some None
      | JArr xs \<Rightarrow> None
      | JObj kvs \<Rightarrow>
          (case field kvs ''_id'' of
             JStr i \<Rightarrow> if i \<noteq> [] then Some (Some i) else None
           | _ \<Rightarrow> None))"

text \<open>The validators of \<open>title\<close> and \<open>description\<close>, with their messages.\<close>

definition check_title :: "string \<Rightarrow> detail list" where
  "check_title t =
     (if t = [] then [Msg ''Title is required'']
      else if length t > 100 then [Msg ''Title cannot exceed 100 characters'']
      else [])"

definition check_description :: "string \<Rightarrow> detail list" where
  "check_description t =
     (if length t > 500 then [Msg ''Description cannot exceed 500 characters''] else [])"

section \<open>The data routes\<close>

text \<open>\<open>x.trim()\<close> on a request value: a \<open>TypeError\<close> unless the value is a string.\<close>

definition str_trim :: "json \<Rightarrow> exn + string" where
  "str_trim j = (case j of JStr s \<Rightarrow> Inr (trim s) | _ \<Rightarrow> Inl TypeError)"

text \<open>\<open>tags.filter(tag => tag.trim())\<close>.\<close>

fun filter_tags :: "json list \<Rightarrow> exn + string list" where
  "filter_tags [] = Inr []"
| "filter_tags (x # xs) =
     (case x of
        JStr s \<Rightarrow>
          (case filter_tags xs of
             Inl e \<Rightarrow> Inl e
           | Inr r \<Rightarrow> Inr (if trim s \<noteq> [] then s # r else r))
      | _ \<Rightarrow> Inl TypeError)"

text \<open>
  The argument of \<open>new Data({...})\<close> in \<open>POST /api/data\<close>, once category and value have
  passed the handler's checks. \<open>isPublic\<close> and \<open>metadata.source\<close> are request values, cast
  by the schema.
\<close>

record draft =
  n_title :: string
  n_description :: string
  n_category :: string
  n_value :: real
  n_unit :: string
  n_tags :: "string list"
  n_isPublic :: json
  n_user :: oid
  n_source :: json

definition new_Data :: "request \<Rightarrow> string \<Rightarrow> real \<Rightarrow> exn + draft" where
  "new_Data req c n =
     (let b = body req in
      case str_trim (field b ''title'') of
        Inl e \<Rightarrow> Inl e
      | Inr t \<Rightarrow>
      (case (if truthy (field b ''description'') then str_trim (field b ''description'') else Inr []) of
        Inl e \<Rightarrow> Inl e
      | Inr ds \<Rightarrow>
      (case (if truthy (field b ''unit'') then str_trim (field b ''unit'') else Inr []) of
        Inl e \<Rightarrow> Inl e
      | Inr un \<Rightarrow>
      (case (case field b ''tags'' of JArr xs \<Rightarrow> filter_tags xs | _ \<Rightarrow> Inr []) of
        Inl e \<Rightarrow> Inl e
      | Inr tg \<Rightarrow>
      (case user req of
        None \<Rightarrow> Inl TypeError
      | Some u \<Rightarrow>
          Inr \<lparr>n_title = t, n_description = ds, n_category = c, n_value = n, n_unit = un,
               n_tags = tg,
               n_isPublic = (if truthy (field b ''isPublic'') then field b ''isPublic'' else JBool False),
               n_user = uid u,
               n_source =
                 (let s = (case field b ''metadata'' of JObj m \<Rightarrow> field m ''source'' | _ \<Rightarrow> JUndefined)
                  in if truthy s then s else JStr ''manual'')\<rparr>)))))"

text \<open>
  \<open>newData.save()\<close>: the document is validated, then inserted. The failed casts, recorded
  when the document was built, come before the validators' messages. The enum and minimum
  validators repeat the handler's checks and cannot fail after them; the schema trims each
  tag; \<open>status\<close> takes its default.
\<close>

definition validate_new :: "env \<Rightarrow> draft \<Rightarrow> detail list" where
  "validate_new ev dr =
     (if castBoolean (n_isPublic dr) = None then [CastFailed ''isPublic''] else [])
     @ (if castString ev (n_source dr) = None then [CastFailed ''metadata.source''] else [])
     @ check_title (n_title dr) @ check_description (n_description dr)"

definition doc_of :: "env \<Rightarrow> draft \<Rightarrow> data" where
  "doc_of ev dr =
     \<lparr>did = newId ev, title = n_title dr, description = n_description dr,
      category = n_category dr, value' = n_value dr, unit' = n_unit dr,
      status' = ''active'', tags = map trim (n_tags dr),
      source = (case castString ev (n_source dr) of Some (Some s) \<Rightarrow> s | _ \<Rightarrow> []),
      version = ''1.0.0'', user' = n_user dr,
      isPublic = (case castBoolean (n_isPublic dr) of Some b \<Rightarrow> b | None \<Rightarrow> None)\<rparr>"

definition save :: "env \<Rightarrow> nat \<Rightarrow> db \<Rightarrow> draft \<Rightarrow> exn + (data \<times> db)" where
  "save ev k st dr =
     (if validate_new ev dr \<noteq> [] then Inl (Exn ''ValidationError'' (validate_new ev dr))
      else if fails ev k then Inl unreachable
      else if newId ev \<in> set (map did (datas st)) then Inl rejected
      else Inr (doc_of ev dr, st\<lparr>datas := datas st @ [doc_of ev dr]\<rparr>))"

definition internal :: response where
  "internal = err 500 ''Internal server error''"

definition invalid :: "exn \<Rightarrow> response" where
  "invalid e = \<lparr>status = 400, sent = ErrorDetails ''Validation error'' (errors_of e)\<rparr>"

text \<open>The \<open>catch\<close> block of \<open>POST /api/data\<close>.\<close>

definition catch_post :: "exn \<Rightarrow> response" where
  "catch_post e = (if name_of e = ''ValidationError'' then invalid e else internal)"

definition create :: "env \<Rightarrow> db \<Rightarrow> request \<Rightarrow> string \<Rightarrow> real \<Rightarrow> response \<times> db" where
  "create ev st req c n =
     (case new_Data req c n of
        Inl e \<Rightarrow> (catch_post e, st)
      | Inr dr \<Rightarrow>
          (case save ev 0 st dr of
             Inl e \<Rightarrow> (catch_post e, st)
           | Inr (d, st') \<Rightarrow>
               if fails ev 1 then (catch_post unreachable, st')
               else (\<lparr>status = 201,
                      sent = DataMessage ''Data record created successfully'' (Some (populate st' d))\<rparr>,
                     st')))"

text \<open>\<open>POST /api/data\<close>, after \<open>authenticateToken\<close>.\<close>

definition post_data :: "env \<Rightarrow> db \<Rightarrow> request \<Rightarrow> response \<times> db" where
  "post_data ev st req =
     (let b = body req; title = field b ''title''; category = field b ''category'';
          value = field b ''value''
      in
      if \<not> truthy title \<or> \<not> truthy category \<or> value = JUndefined
      then (err 400 ''Title, category, and value are required'', st)
      else
        (case category of
           JStr c \<Rightarrow>
             if c \<notin> set validCategories then (err 400 ''Invalid category'', st)
             else
               (case value of
                  JNum n \<Rightarrow>
                    if n < 0 then (err 400 ''Value must be a positive number'', st)
                    else create ev st req c n
                | _ \<Rightarrow> (err 400 ''Value must be a positive number'', st))
         | _ \<Rightarrow> (err 400 ''Invalid category'', st)))"

text \<open>
  \<open>GET /api/data\<close>. The filter is the caller's id, the category and status when they
  are non-empty, and the search pattern over title, description and tags. The page is one
  awaited query, the count another.
\<close>

definition given :: "(string \<times> string) list \<Rightarrow> string \<Rightarrow> string \<Rightarrow> bool" where
  "given q k x = (case map_of q k of None \<Rightarrow> True | Some s \<Rightarrow> s = [] \<or> x = s)"

definition search_test :: "env \<Rightarrow> string option \<Rightarrow> exn + (data \<Rightarrow> bool)" where
  "search_test ev s =
     (case s of
        None \<Rightarrow> Inr (\<lambda>d. True)
      | Some p \<Rightarrow>
          if p = [] then Inr (\<lambda>d. True)
          else
            (case regExp ev (trim p) of
               None \<Rightarrow> Inl (Exn ''SyntaxError'' [])
             | Some f \<Rightarrow> Inr (\<lambda>d. f (title d) \<or> f (description d) \<or> list_ex f (tags d))))"

definition get_data_list :: "env \<Rightarrow> db \<Rightarrow> request \<Rightarrow> response \<times> db" where
  "get_data_list ev st req =
     (let q = query req;
          page = int_param q ''page'' 1;
          limit = int_param q ''limit'' 10;
          sortBy = (case map_of q ''sortBy'' of None \<Rightarrow> ''createdAt'' | Some s \<Rightarrow> s);
          sortOrder = (case map_of q ''sortOrder'' of None \<Rightarrow> ''desc'' | Some s \<Rightarrow> s)
      in
      case user req of
        None \<Rightarrow> (internal, st)
      | Some u \<Rightarrow>
          (case search_test ev (map_of q ''search'') of
             Inl e \<Rightarrow> (internal, st)
           | Inr hit \<Rightarrow>
               (let found =
                      filter (\<lambda>d. user' d = uid u \<and> given q ''category'' (category d)
                                   \<and> given q ''status'' (status' d) \<and> hit d) (datas st)
                in
                case (if fails ev 0 then Inl unreachable
                      else window ev limit (skip_of page limit)
                             (sortData ev sortBy (sortOrder = ''desc'') found)) of
                  Inl e \<Rightarrow> (internal, st)
                | Inr docs \<Rightarrow>
                    if fails ev 1 then (internal, st)
                    else (\<lparr>status = 200,
                           sent = DataPage (map (populate st) docs)
                                    (mk_pagination page limit (length found))\<rparr>, st))))"

text \<open>The \<open>catch\<close> block of \<open>GET\<close> and \<open>DELETE /api/data/:id\<close>, and that of \<open>PUT\<close>.\<close>

definition catch_by_id :: "exn \<Rightarrow> response" where
  "catch_by_id e = (if name_of e = ''CastError'' then err 400 ''Invalid data ID'' else internal)"

definition catch_put :: "exn \<Rightarrow> response" where
  "catch_put e =
     (if name_of e = ''ValidationError'' then invalid e
      else if name_of e = ''CastError'' then err 400 ''Invalid data ID''
      else internal)"

text \<open>
  \<open>GET /api/data/:id\<close>. The record is loaded and populated in one awaited query; the
  ownership test reads \<open>data.user._id\<close>, which throws when the populated user is \<open>null\<close>.
\<close>

definition get_data :: "env \<Rightarrow> db \<Rightarrow> request \<Rightarrow> response \<times> db" where
  "get_data ev st req =
     (case Data_findById ev 0 st (params_id req) of
        Inl e \<Rightarrow> (catch_by_id e, st)
      | Inr None \<Rightarrow> (err 404 ''Data record not found'', st)
      | Inr (Some d) \<Rightarrow>
          (case snd (populate st d) of
             None \<Rightarrow> (catch_by_id TypeError, st)
           | Some (owner, nm, em) \<Rightarrow>
               (case user req of
                  None \<Rightarrow> (catch_by_id TypeError, st)
                | Some u \<Rightarrow>
                    if owner \<noteq> uid u then (err 403 ''Access denied'', st)
                    else (\<lparr>status = 200, sent = DataOnly (populate st d)\<rparr>, st))))"

text \<open>
  \<open>PUT /api/data/:id\<close>. Building \<open>updateFields\<close> stops at the first field that throws
  or is refused; \<open>None\<close> in a \<open>patch\<close> is a key that \<open>updateFields\<close> does not have.
\<close>

datatype stop = Thrown exn | Replied response

record patch =
  set_title :: "string option"
  set_description :: "string option"
  set_category :: "string option"
  set_value :: "real option"
  set_unit :: "string option"
  set_tags :: "string list option"
  set_status :: "string option"
  set_isPublic :: "json option"

definition and_then :: "stop + 'a \<Rightarrow> ('a \<Rightarrow> stop + 'b) \<Rightarrow> stop + 'b" where
  "and_then x f = (case x of Inl e \<Rightarrow> Inl e | Inr v \<Rightarrow> f v)"

definition opt_trim :: "json \<Rightarrow> stop + string option" where
  "opt_trim j =
     (case j of
        JUndefined \<Rightarrow> Inr None
      | JStr s \<Rightarrow> Inr (Some (trim s))
      | _ \<Rightarrow> Inl (Thrown TypeError))"

definition opt_enum :: "string list \<Rightarrow> string \<Rightarrow> json \<Rightarrow> stop + string option" where
  "opt_enum allowed msg j =
     (case j of
        JUndefined \<Rightarrow> Inr None
      | JStr s \<Rightarrow> if s \<in> set allowed then Inr (Some s) else Inl (Replied (err 400 msg))
      | _ \<Rightarrow> Inl (Replied (err 400 msg)))"

definition opt_value :: "json \<Rightarrow> stop + real option" where
  "opt_value j =
     (case j of
        JUndefined \<Rightarrow> Inr None
      | JNum n \<Rightarrow>
          if n < 0 then Inl (Replied (err 400 ''Value must be a positive number''))
          else Inr (Some n)
      | _ \<Rightarrow> Inl (Replied (err 400 ''Value must be a positive number'')))"

definition opt_tags :: "json \<Rightarrow> stop + string list option" where
  "opt_tags j =
     (case j of
        JUndefined \<Rightarrow> Inr None
      | JArr xs \<Rightarrow> (case filter_tags xs of Inl e \<Rightarrow> Inl (Thrown e) | Inr r \<Rightarrow> Inr (Some r))
      | _ \<Rightarrow> Inr (Some []))"

definition opt_any :: "json \<Rightarrow> json option" where
  "opt_any j = (if j = JUndefined then None else Some j)"

definition updateFields :: "obj \<Rightarrow> stop + patch" where
  "updateFields b =
     and_then (opt_trim (field b ''title'')) (\<lambda>t.
     and_then (opt_trim (field b ''description'')) (\<lambda>ds.
     and_then (opt_enum validCategories ''Invalid category'' (field b ''category'')) (\<lambda>c.
     and_then (opt_value (field b ''value'')) (\<lambda>v.
     and_then (opt_trim (field b ''unit'')) (\<lambda>un.
     and_then (opt_tags (field b ''tags'')) (\<lambda>tg.
     and_then (opt_enum validStatuses ''Invalid status'' (field b ''status'')) (\<lambda>s.
       Inr \<lparr>set_title = t, set_description = ds, set_category = c, set_value = v,
            set_unit = un, set_tags = tg, set_status = s,
            set_isPublic = opt_any (field b ''isPublic'')\<rparr>)))))))"

text \<open>
  \<open>Data.findByIdAndUpdate(id, {$set: updateFields}, {new: true, runValidators: true})\<close>:
  the update is cast, its paths are validated, and the first document with the id gets the
  keys of the update and keeps its other paths.
\<close>

definition or_else :: "'a option \<Rightarrow> 'a \<Rightarrow> 'a" where
  "or_else x d = (case x of None \<Rightarrow> d | Some v \<Rightarrow> v)"

definition apply_patch :: "patch \<Rightarrow> data \<Rightarrow> data" where
  "apply_patch p d =
     d\<lparr>title := or_else (set_title p) (title d),
       description := or_else (set_description p) (description d),
       category := or_else (set_category p) (category d),
       value' := or_else (set_value p) (value' d),
       unit' := or_else (set_unit p) (unit' d),
       tags := or_else (map_option (map trim) (set_tags p)) (tags d),
       status' := or_else (set_status p) (status' d),
       isPublic :=
         (case set_isPublic p of
            None \<Rightarrow> isPublic d
          | Some j \<Rightarrow> (case castBoolean j of Some b \<Rightarrow> b | None \<Rightarrow> None))\<rparr>"

definition validate_patch :: "patch \<Rightarrow> detail list" where
  "validate_patch p =
     (case set_title p of None \<Rightarrow> [] | Some t \<Rightarrow> check_title t)
     @ (case set_description p of None \<Rightarrow> [] | Some t \<Rightarrow> check_description t)"

fun update_first :: "('a \<Rightarrow> bool) \<Rightarrow> ('a \<Rightarrow> 'a) \<Rightarrow> 'a list \<Rightarrow> 'a list" where
  "update_first P f [] = []"
| "update_first P f (x # xs) = (if P x then f x # xs else x # update_first P f xs)"

definition Data_findByIdAndUpdate ::
  "env \<Rightarrow> nat \<Rightarrow> db \<Rightarrow> string \<Rightarrow> patch \<Rightarrow> exn + (data option \<times> db)" where
  "Data_findByIdAndUpdate ev k st i p =
     (case castObjectId ev (JStr i) of
        None \<Rightarrow> Inl CastError
      | Some x \<Rightarrow>
          if (case set_isPublic p of None \<Rightarrow> False | Some j \<Rightarrow> castBoolean j = None)
          then Inl CastError
          else if validate_patch p \<noteq> [] then Inl (Exn ''ValidationError'' (validate_patch p))
          else if fails ev k then Inl unreachable
          else Inr (map_option (apply_patch p) (find (\<lambda>d. did d = x) (datas st)),
                    st\<lparr>datas := update_first (\<lambda>d. did d = x) (apply_patch p) (datas st)\<rparr>))"

definition put_data :: "env \<Rightarrow> db \<Rightarrow> request \<Rightarrow> response \<times> db" where
  "put_data ev st req =
     (case Data_findById ev 0 st (params_id req) of
        Inl e \<Rightarrow> (catch_put e, st)
      | Inr None \<Rightarrow> (err 404 ''Data record not found'', st)
      | Inr (Some d) \<Rightarrow>
          (case user req of
             None \<Rightarrow> (catch_put TypeError, st)
           | Some u \<Rightarrow>
               if user' d \<noteq> uid u then (err 403 ''Access denied'', st)
               else
                 (case updateFields (body req) of
                    Inl (Thrown e) \<Rightarrow> (catch_put e, st)
                  | Inl (Replied r) \<Rightarrow> (r, st)
                  | Inr p \<Rightarrow>
                      (case Data_findByIdAndUpdate ev 1 st (params_id req) p of
                         Inl e \<Rightarrow> (catch_put e, st)
                       | Inr (d', st') \<Rightarrow>
                           (\<lparr>status = 200,
                             sent = DataMessage ''Data record updated successfully''
                                      (map_option (populate st') d')\<rparr>, st')))))"

text \<open>\<open>DELETE /api/data/:id\<close>.\<close>

definition delete_data :: "env \<Rightarrow> db \<Rightarrow> request \<Rightarrow> response \<times> db" where
  "delete_data ev st req =
     (case Data_findById ev 0 st (params_id req) of
        Inl e \<Rightarrow> (catch_by_id e, st)
      | Inr None \<Rightarrow> (err 404 ''Data record not found'', st)
      | Inr (Some d) \<Rightarrow>
          (case user req of
             None \<Rightarrow> (catch_by_id TypeError, st)
           | Some u \<Rightarrow>
               if user' d \<noteq> uid u then (err 403 ''Access denied'', st)
               else
                 (case Data_findByIdAndDelete ev 1 st (params_id req) of
                    Inl e \<Rightarrow> (catch_by_id e, st)
                  | Inr st' \<Rightarrow>
                      (\<lparr>status = 200, sent = Message ''Data record deleted successfully''\<rparr>, st'))))"

section \<open>The user routes\<close>

text \<open>
  \<open>DELETE /api/user/account\<close>. The handler reads \<open>password\<close> from the body and does not
  use it. The two deletions are two awaited store operations.
\<close>

definition delete_account :: "env \<Rightarrow> db \<Rightarrow> request \<Rightarrow> response \<times> db" where
  "delete_account ev st req =
     (let password = field (body req) ''password'' in
      case user req of
        None \<Rightarrow> (internal, st)
      | Some u \<Rightarrow>
          (case Data_deleteMany_user ev 0 st (uid u) of
             Inl e \<Rightarrow> (internal, st)
           | Inr st1 \<Rightarrow>
               (case User_findByIdAndDelete ev 1 st1 (uid u) of
                  Inl e \<Rightarrow> (internal, st1)
                | Inr st2 \<Rightarrow>
                    (\<lparr>status = 200, sent = Message ''Account deleted successfully''\<rparr>, st2))))"

text \<open>\<open>GET /api/user/search\<close>.\<close>

definition search_users :: "env \<Rightarrow> db \<Rightarrow> request \<Rightarrow> response \<times> db" where
  "search_users ev st req =
     (let q = query req;
          limit = int_param q ''limit'' 10;
          page = int_param q ''page'' 1
      in
      case map_of q ''query'' of
        None \<Rightarrow> (err 400 ''Search query must be at least 2 characters long'', st)
      | Some s \<Rightarrow>
          if s = [] \<or> length (trim s) < 2
          then (err 400 ''Search query must be at least 2 characters long'', st)
          else
            (case regExp ev (trim s) of
               None \<Rightarrow> (internal, st)
             | Some f \<Rightarrow>
                 (let found =
                        filter (\<lambda>u. f (name u) \<or> f (email u) \<or> f (firstName u) \<or> f (lastName u))
                          (users st)
                  in
                  case (if fails ev 0 then Inl unreachable
                        else window ev limit (skip_of page limit) (sortUsers ev found)) of
                    Inl e \<Rightarrow> (internal, st)
                  | Inr us \<Rightarrow>
                      if fails ev 1 then (internal, st)
                      else (\<lparr>status = 200,
                             sent = UserPage us (mk_pagination page limit (length found))\<rparr>, st))))"

section \<open>Routes behind the authentication middleware\<close>

text \<open>
  \<open>router.METHOD(path, authenticateToken, handler)\<close>: the middleware's lookup is the first
  store operation of the request, the handler's operations follow. \<open>authenticateToken\<close>
  catches every exception, so the last branch is never taken.
\<close>

definition later :: "env \<Rightarrow> env" where
  "later ev = ev\<lparr>fails := (\<lambda>k. fails ev (Suc k))\<rparr>"

definition route ::
  "(string \<Rightarrow> exn + obj) \<Rightarrow> (env \<Rightarrow> db \<Rightarrow> request \<Rightarrow> response \<times> db) \<Rightarrow>
     env \<Rightarrow> db \<Rightarrow> request \<Rightarrow> response \<times> db" where
  "route verify handler ev st req =
     (case authenticateToken verify (User_findById ev 0 st) req of
        Respond r \<Rightarrow> (r, st)
      | Next req' \<Rightarrow> handler (later ev) st req'
      | Throw e \<Rightarrow> (internal, st))"

section \<open>Sample store and requests\<close>

definition alice :: user where
  "alice = \<lparr>uid = ''a1'', name = ''Alice'', email = ''alice@example.com'',
            firstName = ''Alice'', lastName = ''Ames'', role = ''user'', isActive = True\<rparr>"

definition bob :: user where
  "bob = \<lparr>uid = ''b2'', name = ''Bob'', email = ''bob@example.com'',
          firstName = ''Bob'', lastName = ''Burns'', role = ''user'', isActive = False\<rparr>"

definition admin :: user where
  "admin = \<lparr>uid = ''r0'', name = ''Root'', email = ''root@example.com'',
           firstName = ''Ro'', lastName = ''Ot'', role = ''admin'', isActive = True\<rparr>"

definition cpu :: data where
  "cpu = \<lparr>did = ''d1'', title = ''CPU'', description = [], category = ''metrics'',
          value' = 42, unit' = ''%'', status' = ''active'', tags = [''host''],
          source = ''manual'', version = ''1.0.0'', user' = ''a1'', isPublic = Some False\<rparr>"

definition mem :: data where
  "mem = \<lparr>did = ''d2'', title = ''Memory'', description = [], category = ''metrics'',
          value' = 7, unit' = ''GB'', status' = ''active'', tags = [],
          source = ''manual'', version = ''1.0.0'', user' = ''a1'', isPublic = Some False\<rparr>"

definition db0 :: db where
  "db0 = \<lparr>users = [alice, bob, admin], datas = [cpu, mem]\<rparr>"

text \<open>
  A store that answers every operation, ids that are their own strings, a pattern that
  matches the strings equal to it, and a sort that keeps the natural order.
\<close>

definition env0 :: env where
  "env0 = \<lparr>fails = (\<lambda>k. False),
           castObjectId = (\<lambda>j. case j of JStr s \<Rightarrow> Some s | _ \<Rightarrow> None),
           newId = ''d9'',
           numToString = (\<lambda>r. ''0''),
           regExp = (\<lambda>p. Some (\<lambda>s. s = p)),
           sortData = (\<lambda>f desc xs. xs),
           sortUsers = (\<lambda>xs. xs),
           nanOption = None\<rparr>"

definition anon :: request where
  "anon = \<lparr>authorization = None, params_id = ''d1'', query = [], body = [], user = None\<rparr>"

text \<open>
  A codec that accepts the tokens \<open>t-alice\<close>, \<open>t-bob\<close>, \<open>t-admin\<close> and \<open>t-gone\<close>, knows
  \<open>t-old\<close> as expired and \<open>t-soon\<close> as not yet valid, and refuses every other string.
\<close>

definition verify0 :: "string \<Rightarrow> exn + obj" where
  "verify0 t =
     (if t = ''t-alice'' then Inr [(''id'', JStr ''a1'')]
      else if t = ''t-bob'' then Inr [(''id'', JStr ''b2'')]
      else if t = ''t-admin'' then Inr [(''id'', JStr ''r0'')]
      else if t = ''t-gone'' then Inr [(''id'', JStr ''zz'')]
      else if t = ''t-old'' then Inl (Exn ''TokenExpiredError'' [])
      else if t = ''t-soon'' then Inl (Exn ''NotBeforeError'' [])
      else Inl (Exn ''JsonWebTokenError'' []))"

definition bearer :: "string \<Rightarrow> request" where
  "bearer t = anon\<lparr>authorization := Some (''Bearer '' @ t)\<rparr>"

definition basic :: "string \<Rightarrow> request" where
  "basic t = anon\<lparr>authorization := Some (''Basic '' @ t)\<rparr>"

definition scheme_only :: request where
  "scheme_only = anon\<lparr>authorization := Some ''Bearer''\<rparr>"

definition three_pieces :: request where
  "three_pieces = anon\<lparr>authorization := Some ''Bearer t-alice t-bob''\<rparr>"

text \<open>Requests that have passed \<open>authenticateToken\<close> for a given user.\<close>

definition by_user :: "user \<Rightarrow> request" where
  "by_user u = anon\<lparr>user := Some u\<rparr>"

definition status_only :: request where
  "status_only = (by_user alice)\<lparr>body := [(''status'', JStr ''inactive'')]\<rparr>"

definition new_load :: request where
  "new_load = (by_user alice)\<lparr>body :=
     [(''title'', JStr '' Load ''), (''category'', JStr ''metrics''), (''value'', JNum 42),
      (''unit'', JStr ''%''), (''user'', JStr ''r0'')]\<rparr>"

definition load :: data where
  "load = \<lparr>did = ''d9'', title = ''Load'', description = [], category = ''metrics'',
           value' = 42, unit' = ''%'', status' = ''active'', tags = [],
           source = ''manual'', version = ''1.0.0'', user' = ''a1'', isPublic = Some False\<rparr>"

definition reassign :: request where
  "reassign = (by_user alice)\<lparr>body := [(''user'', JStr ''r0''), (''status'', JStr ''pending'')]\<rparr>"

definition bad_category :: request where
  "bad_category = (by_user alice)\<lparr>body :=
     [(''title'', JStr ''Rain''), (''category'', JStr ''weather''), (''value'', JNum 3)]\<rparr>"

definition bad_value :: request where
  "bad_value = (by_user alice)\<lparr>body :=
     [(''title'', JStr ''Rain''), (''category'', JStr ''other''), (''value'', JStr ''3'')]\<rparr>"

definition first_one :: request where
  "first_one = (by_user alice)\<lparr>query := [(''limit'', ''1''), (''query'', ''Alice'')]\<rparr>"

definition limit_zero :: request where
  "limit_zero = (by_user alice)\<lparr>query := [(''limit'', ''0''), (''query'', ''Alice'')]\<rparr>"

section \<open>Properties\<close>

lemma find_holds: "find P xs = Some x \<Longrightarrow> P x"
  by (induction xs) (auto split: if_splits)

lemma find_member: "find P xs = Some x \<Longrightarrow> x \<in> set xs"
  by (induction xs) (auto split: if_splits)

text \<open>The fields of the sample documents and of the sample surroundings.\<close>

lemma sample_fields:
  "uid alice = ''a1''" "uid bob = ''b2''" "uid admin = ''r0''"
  "name alice = ''Alice''" "email alice = ''alice@example.com''"
  "firstName alice = ''Alice''" "lastName alice = ''Ames''"
  "name bob = ''Bob''" "email bob = ''bob@example.com''"
  "firstName bob = ''Bob''" "lastName bob = ''Burns''"
  "name admin = ''Root''" "email admin = ''root@example.com''"
  "firstName admin = ''Ro''" "lastName admin = ''Ot''"
  "did cpu = ''d1''" "did mem = ''d2''" "user' cpu = ''a1''" "user' mem = ''a1''"
  "category cpu = ''metrics''" "category mem = ''metrics''"
  "status' cpu = ''active''" "status' mem = ''active''"
  by (simp_all add: alice_def bob_def admin_def cpu_def mem_def)

lemma env0_fields:
  "fails env0 k = False" "castObjectId env0 (JStr s) = Some s" "newId env0 = ''d9''"
  "regExp env0 p = Some (\<lambda>s. s = p)" "sortData env0 f desc xs = xs" "sortUsers env0 us = us"
  "nanOption env0 = None"
  by (simp_all add: env0_def)

lemma sample_headers:
  "authorization anon = None"
  "authorization scheme_only = Some ''Bearer'' \<and> CHR '' '' \<notin> set ''Bearer''"
  "CHR '' '' \<notin> set t \<Longrightarrow>
     authorization (bearer t) = Some (''Bearer'' @ CHR '' '' # t @ [])
     \<and> CHR '' '' \<notin> set ''Bearer'' \<and> CHR '' '' \<notin> set t
     \<and> ([] = ([]::string) \<or> (\<exists>r'. [] = CHR '' '' # r'))"
  "authorization three_pieces = Some (''Bearer'' @ CHR '' '' # ''t-alice'' @ '' t-bob'')
     \<and> CHR '' '' \<notin> set ''Bearer'' \<and> CHR '' '' \<notin> set ''t-alice''
     \<and> ('' t-bob'' = [] \<or> (\<exists>r'. '' t-bob'' = CHR '' '' # r'))"
  by (simp_all add: anon_def bearer_def scheme_only_def three_pieces_def)

lemma sample_lookups:
  "User_findById env0 0 db0 (field [(''id'', JStr ''zz'')] ''id'') = Inr None"
  "User_findById env0 0 db0 (field [(''id'', JStr ''b2'')] ''id'') = Inr (Some bob)"
  "User_findById env0 0 db0 (field [(''id'', JStr ''a1'')] ''id'') = Inr (Some alice)"
  "User_findById env0 0 db0 (field [(''id'', JStr ''r0'')] ''id'') = Inr (Some admin)"
  "User_findById (env0\<lparr>fails := (\<lambda>k. True)\<rparr>) 0 db0 (field [(''id'', JStr ''a1'')] ''id'')
     = Inl unreachable"
  by (simp_all add: User_findById_def field_def env0_def db0_def sample_fields)

subsection \<open>The authentication middleware\<close>

text \<open>
  The token of a header: nothing when the header has no space, otherwise the piece between
  its first space and the next one.
\<close>

lemma split_on_none: "c \<notin> set s \<Longrightarrow> split_on c s = [s]"
  by (induction s) auto

lemma split_on_first: "c \<notin> set s \<Longrightarrow> split_on c (s @ c # rest) = s # split_on c rest"
  by (induction s) auto

lemma split_on_hd:
  "c \<notin> set t \<Longrightarrow> r = [] \<or> (\<exists>r'. r = c # r') \<Longrightarrow> \<exists>ws. split_on c (t @ r) = t # ws"
  by (auto simp: split_on_none split_on_first)

lemma token_of_no_space:
  "CHR '' '' \<notin> set h \<Longrightarrow> token_of (Some h) = None \<or> token_of (Some h) = Some []"
  by (simp add: token_of_def split_on_none nth_opt_def)

lemma token_of_piece:
  assumes "CHR '' '' \<notin> set s" and "CHR '' '' \<notin> set t"
    and "r = [] \<or> (\<exists>r'. r = CHR '' '' # r')"
  shows "token_of (Some (s @ CHR '' '' # t @ r)) = Some t"
proof -
  from split_on_hd [OF assms(2,3)] obtain ws where "split_on CHR '' '' (t @ r) = t # ws" by blast
  with assms(1) show ?thesis
    by (simp add: token_of_def split_on_first nth_opt_def)
qed

lemma header_cases:
  "c \<notin> set h \<or> (\<exists>s t r. h = s @ c # t @ r \<and> c \<notin> set s \<and> c \<notin> set t
       \<and> (r = [] \<or> (\<exists>r'. r = c # r')))"
proof (cases "c \<in> set h")
  case False
  then show ?thesis by simp
next
  case True
  then obtain s rest where h: "h = s @ c # rest" and s: "c \<notin> set s"
    by (meson split_list_first)
  let ?t = "takeWhile (\<lambda>x. x \<noteq> c) rest"
  let ?r = "dropWhile (\<lambda>x. x \<noteq> c) rest"
  have t: "c \<notin> set ?t" by (auto dest: set_takeWhileD)
  have r: "?r = [] \<or> (\<exists>r'. ?r = c # r')"
    by (cases ?r) (auto simp: dropWhile_eq_Cons_conv)
  have "h = s @ c # ?t @ ?r" by (simp add: h)
  with s t r show ?thesis by blast
qed

lemma auth_no_token:
  "token_of (authorization req) = None \<or> token_of (authorization req) = Some [] \<Longrightarrow>
     authenticateToken verify findById req
       = Respond (err 401 ''Access denied. No token provided.'')"
  by (auto simp: authenticateToken_def)

lemma auth_verify_throws:
  "token_of (authorization req) = Some t \<Longrightarrow> t \<noteq> [] \<Longrightarrow> verify t = Inl e \<Longrightarrow>
     authenticateToken verify findById req = Respond (on_auth_error e)"
  by (simp add: authenticateToken_def)

lemma auth_lookup:
  "token_of (authorization req) = Some t \<Longrightarrow> t \<noteq> [] \<Longrightarrow> verify t = Inr d \<Longrightarrow>
     authenticateToken verify findById req
       = (case findById (field d ''id'') of
            Inl e \<Rightarrow> Respond (on_auth_error e)
          | Inr None \<Rightarrow> Respond (err 401 ''Invalid token. User not found.'')
          | Inr (Some u) \<Rightarrow>
              if \<not> isActive u then Respond (err 401 ''Account is deactivated.'')
              else Next (req\<lparr>user := Some u\<rparr>))"
  by (simp add: authenticateToken_def)

lemma auth_next:
  "authenticateToken verify findById req = Next req' \<Longrightarrow>
     \<exists>t d u. token_of (authorization req) = Some t \<and> t \<noteq> [] \<and> verify t = Inr d
        \<and> findById (field d ''id'') = Inr (Some u) \<and> isActive u
        \<and> req' = req\<lparr>user := Some u\<rparr>"
  by (auto simp: authenticateToken_def split: option.splits sum.splits if_splits)

lemma auth_never_throws: "authenticateToken verify findById req \<noteq> Throw e"
  by (auto simp: authenticateToken_def split: option.splits sum.splits if_splits)

text \<open>
  C3, as \<open>authenticateToken\<close> has it. The token is the second space-separated piece of the
  \<open>Authorization\<close> header; the word before it is not inspected. The middleware answers 401
  \<open>Access denied. No token provided.\<close> when the header is absent, has no space, or has an empty
  second piece. For a non-empty token it answers 401 \<open>Invalid token.\<close> when the codec throws
  a \<open>JsonWebTokenError\<close>, 401 \<open>Token expired.\<close> when it throws a \<open>TokenExpiredError\<close>, 401
  \<open>Invalid token. User not found.\<close> when the lookup finds no user, 401
  \<open>Account is deactivated.\<close> when the user is not active, and 500 with one fixed message,
  whatever the exception, on any other error of the codec or of the store. It calls
  \<open>next()\<close>, with the loaded user attached, when that token verifies and the user is found
  and active, and only then. It never throws.
\<close>

theorem authenticateToken_by_header:
  "(authorization req = None \<longrightarrow>
      authenticateToken verify findById req
        = Respond (err 401 ''Access denied. No token provided.''))
   \<and> (\<forall>h. authorization req = Some h \<and> CHR '' '' \<notin> set h \<longrightarrow>
      authenticateToken verify findById req
        = Respond (err 401 ''Access denied. No token provided.''))
   \<and> (\<forall>s t r. authorization req = Some (s @ CHR '' '' # t @ r)
          \<and> CHR '' '' \<notin> set s \<and> CHR '' '' \<notin> set t
          \<and> (r = [] \<or> (\<exists>r'. r = CHR '' '' # r')) \<longrightarrow>
        (t = [] \<longrightarrow>
           authenticateToken verify findById req
             = Respond (err 401 ''Access denied. No token provided.''))
        \<and> (\<forall>e. t \<noteq> [] \<and> verify t = Inl e \<longrightarrow>
           (name_of e = ''JsonWebTokenError'' \<longrightarrow>
              authenticateToken verify findById req = Respond (err 401 ''Invalid token.''))
           \<and> (name_of e = ''TokenExpiredError'' \<longrightarrow>
              authenticateToken verify findById req = Respond (err 401 ''Token expired.''))
           \<and> (name_of e \<noteq> ''JsonWebTokenError'' \<and> name_of e \<noteq> ''TokenExpiredError'' \<longrightarrow>
              authenticateToken verify findById req
                = Respond (err 500 ''Internal server error during authentication.'')))
        \<and> (\<forall>d. t \<noteq> [] \<and> verify t = Inr d \<longrightarrow>
           (findById (field d ''id'') = Inr None \<longrightarrow>
              authenticateToken verify findById req
                = Respond (err 401 ''Invalid token. User not found.''))
           \<and> (\<forall>u. findById (field d ''id'') = Inr (Some u) \<and> \<not> isActive u \<longrightarrow>
              authenticateToken verify findById req
                = Respond (err 401 ''Account is deactivated.''))
           \<and> (\<forall>u. findById (field d ''id'') = Inr (Some u) \<and> isActive u \<longrightarrow>
              authenticateToken verify findById req = Next (req\<lparr>user := Some u\<rparr>))
           \<and> (\<forall>e. findById (field d ''id'') = Inl e
                  \<and> name_of e \<noteq> ''JsonWebTokenError'' \<and> name_of e \<noteq> ''TokenExpiredError'' \<longrightarrow>
              authenticateToken verify findById req
                = Respond (err 500 ''Internal server error during authentication.''))))
   \<and> (\<forall>req'. authenticateToken verify findById req = Next req' \<longrightarrow>
        (\<exists>s t r d u. authorization req = Some (s @ CHR '' '' # t @ r)
           \<and> CHR '' '' \<notin> set s \<and> CHR '' '' \<notin> set t \<and> t \<noteq> []
           \<and> (r = [] \<or> (\<exists>r'. r = CHR '' '' # r'))
           \<and> verify t = Inr d \<and> findById (field d ''id'') = Inr (Some u) \<and> isActive u
           \<and> req' = req\<lparr>user := Some u\<rparr>))
   \<and> (\<forall>e. authenticateToken verify findById req \<noteq> Throw e)"
proof -
  have absent: "authenticateToken verify findById req
      = Respond (err 401 ''Access denied. No token provided.'')"
    if "authorization req = None"
    using that by (simp add: auth_no_token token_of_def)
  have single: "authenticateToken verify findById req
      = Respond (err 401 ''Access denied. No token provided.'')"
    if "authorization req = Some h" "CHR '' '' \<notin> set h" for h
    using token_of_no_space [OF that(2)] that(1) by (simp add: auth_no_token)
  have piece: "authenticateToken verify findById req
      = (if t = [] then Respond (err 401 ''Access denied. No token provided.'')
         else
           (case verify t of
              Inl e \<Rightarrow> Respond (on_auth_error e)
            | Inr d \<Rightarrow>
                (case findById (field d ''id'') of
                   Inl e \<Rightarrow> Respond (on_auth_error e)
                 | Inr None \<Rightarrow> Respond (err 401 ''Invalid token. User not found.'')
                 | Inr (Some u) \<Rightarrow>
                     if \<not> isActive u then Respond (err 401 ''Account is deactivated.'')
                     else Next (req\<lparr>user := Some u\<rparr>))))"
    if "authorization req = Some (s @ CHR '' '' # t @ r)" "CHR '' '' \<notin> set s"
      "CHR '' '' \<notin> set t" "r = [] \<or> (\<exists>r'. r = CHR '' '' # r')" for s t r
  proof -
    from token_of_piece [OF that(2,3,4)] that(1)
    have "token_of (authorization req) = Some t" by simp
    then show ?thesis by (simp add: authenticateToken_def)
  qed
  have only: "\<exists>s t r d u. authorization req = Some (s @ CHR '' '' # t @ r)
           \<and> CHR '' '' \<notin> set s \<and> CHR '' '' \<notin> set t \<and> t \<noteq> []
           \<and> (r = [] \<or> (\<exists>r'. r = CHR '' '' # r'))
           \<and> verify t = Inr d \<and> findById (field d ''id'') = Inr (Some u) \<and> isActive u
           \<and> req' = req\<lparr>user := Some u\<rparr>"
    if n: "authenticateToken verify findById req = Next req'" for req'
  proof -
    from auth_next [OF n] obtain t d u where
      t: "token_of (authorization req) = Some t" "t \<noteq> []" and
      v: "verify t = Inr d" "findById (field d ''id'') = Inr (Some u)" "isActive u"
        "req' = req\<lparr>user := Some u\<rparr>"
      by blast
    from t obtain h where h: "authorization req = Some h"
      by (cases "authorization req") (auto simp: token_of_def)
    from header_cases [of "CHR '' ''" h] show ?thesis
    proof
      assume "CHR '' '' \<notin> set h"
      from token_of_no_space [OF this] t h show ?thesis by simp
    next
      assume "\<exists>s t r. h = s @ CHR '' '' # t @ r \<and> CHR '' '' \<notin> set s \<and> CHR '' '' \<notin> set t
          \<and> (r = [] \<or> (\<exists>r'. r = CHR '' '' # r'))"
      then obtain s t' r where d: "h = s @ CHR '' '' # t' @ r" "CHR '' '' \<notin> set s"
        "CHR '' '' \<notin> set t'" "r = [] \<or> (\<exists>r'. r = CHR '' '' # r')"
        by blast
      from token_of_piece [OF d(2,3,4)] t h d(1) have "t' = t" by simp
      with d h t(2) v show ?thesis
        by (intro exI [of _ s] exI [of _ t] exI [of _ r] exI [of _ d] exI [of _ u]) simp
    qed
  qed
  show ?thesis
    apply (intro conjI)
    subgoal by (simp add: absent)
    subgoal by (intro allI impI, elim conjE) (rule single)
    subgoal
      apply (intro allI impI, elim conjE)
      apply (frule (3) piece)
      apply (simp add: on_auth_error_def)
      done
    subgoal by (intro allI impI) (rule only)
    subgoal by (intro allI) (rule auth_never_throws)
    done
qed

theorem authenticateToken_by_header_witness:
  "authenticateToken verify0 (User_findById env0 0 db0) anon
     = Respond (err 401 ''Access denied. No token provided.'')
   \<and> authenticateToken verify0 (User_findById env0 0 db0) scheme_only
     = Respond (err 401 ''Access denied. No token provided.'')
   \<and> authenticateToken verify0 (User_findById env0 0 db0) (bearer [])
     = Respond (err 401 ''Access denied. No token provided.'')
   \<and> authenticateToken verify0 (User_findById env0 0 db0) (bearer ''t-old'')
     = Respond (err 401 ''Token expired.'')
   \<and> authenticateToken verify0 (User_findById env0 0 db0) (bearer ''forged'')
     = Respond (err 401 ''Invalid token.'')
   \<and> authenticateToken verify0 (User_findById env0 0 db0) (bearer ''t-soon'')
     = Respond (err 500 ''Internal server error during authentication.'')
   \<and> authenticateToken verify0 (User_findById env0 0 db0) (bearer ''t-gone'')
     = Respond (err 401 ''Invalid token. User not found.'')
   \<and> authenticateToken verify0 (User_findById env0 0 db0) (bearer ''t-bob'')
     = Respond (err 401 ''Account is deactivated.'')
   \<and> authenticateToken verify0 (User_findById (env0\<lparr>fails := (\<lambda>k. True)\<rparr>) 0 db0) (bearer ''t-alice'')
     = Respond (err 500 ''Internal server error during authentication.'')
   \<and> authenticateToken verify0 (User_findById env0 0 db0) (bearer ''t-alice'')
     = Next ((bearer ''t-alice'')\<lparr>user := Some alice\<rparr>)
   \<and> authenticateToken verify0 (User_findById env0 0 db0) three_pieces
     = Next (three_pieces\<lparr>user := Some alice\<rparr>)"
proof -
  let ?f = "User_findById env0 0 db0"
  let ?g = "User_findById (env0\<lparr>fails := (\<lambda>k. True)\<rparr>) 0 db0"
  have v: "verify0 ''t-old'' = Inl (Exn ''TokenExpiredError'' [])"
      "verify0 ''forged'' = Inl (Exn ''JsonWebTokenError'' [])"
      "verify0 ''t-soon'' = Inl (Exn ''NotBeforeError'' [])"
      "verify0 ''t-gone'' = Inr [(''id'', JStr ''zz'')]"
      "verify0 ''t-bob'' = Inr [(''id'', JStr ''b2'')]"
      "verify0 ''t-alice'' = Inr [(''id'', JStr ''a1'')]"
    by (simp_all add: verify0_def)
  have n: "name_of (Exn ''TokenExpiredError'' []) = ''TokenExpiredError''"
      "name_of (Exn ''JsonWebTokenError'' []) = ''JsonWebTokenError''"
      "name_of (Exn ''NotBeforeError'' []) \<noteq> ''JsonWebTokenError''"
      "name_of (Exn ''NotBeforeError'' []) \<noteq> ''TokenExpiredError''"
      "name_of unreachable \<noteq> ''JsonWebTokenError''"
      "name_of unreachable \<noteq> ''TokenExpiredError''"
    by (simp_all add: name_of_def unreachable_def)
  have a: "\<not> isActive bob" "isActive alice"
    by (simp_all add: alice_def bob_def)
  note th = authenticateToken_by_header [where verify = verify0]
  note absent = th [THEN conjunct1, rule_format]
  note single = th [THEN conjunct2, THEN conjunct1, rule_format]
  note piece = th [THEN conjunct2, THEN conjunct2, THEN conjunct1, rule_format]
  have "authenticateToken verify0 ?f anon = Respond (err 401 ''Access denied. No token provided.'')"
    by (rule absent) (rule sample_headers)
  moreover have "authenticateToken verify0 ?f scheme_only
      = Respond (err 401 ''Access denied. No token provided.'')"
    by (rule single) (rule sample_headers)
  moreover have "authenticateToken verify0 ?f (bearer [])
      = Respond (err 401 ''Access denied. No token provided.'')"
    using piece [OF sample_headers(3), of "[]" ?f] by simp
  moreover have "authenticateToken verify0 ?f (bearer ''t-old'') = Respond (err 401 ''Token expired.'')"
    using piece [OF sample_headers(3), of "''t-old''" ?f] v(1) n(1) by simp
  moreover have "authenticateToken verify0 ?f (bearer ''forged'') = Respond (err 401 ''Invalid token.'')"
    using piece [OF sample_headers(3), of "''forged''" ?f] v(2) n(2) by simp
  moreover have "authenticateToken verify0 ?f (bearer ''t-soon'')
      = Respond (err 500 ''Internal server error during authentication.'')"
    using piece [OF sample_headers(3), of "''t-soon''" ?f] v(3) n(3,4) by simp
  moreover have "authenticateToken verify0 ?f (bearer ''t-gone'')
      = Respond (err 401 ''Invalid token. User not found.'')"
    using piece [OF sample_headers(3), of "''t-gone''" ?f] v(4) sample_lookups(1) by simp
  moreover have "authenticateToken verify0 ?f (bearer ''t-bob'')
      = Respond (err 401 ''Account is deactivated.'')"
    using piece [OF sample_headers(3), of "''t-bob''" ?f] v(5) sample_lookups(2) a(1) by simp
  moreover have "authenticateToken verify0 ?g (bearer ''t-alice'')
      = Respond (err 500 ''Internal server error during authentication.'')"
    using piece [OF sample_headers(3), of "''t-alice''" ?g] v(6) sample_lookups(5) n(5,6) by simp
  moreover have "authenticateToken verify0 ?f (bearer ''t-alice'')
      = Next ((bearer ''t-alice'')\<lparr>user := Some alice\<rparr>)"
    using piece [OF sample_headers(3), of "''t-alice''" ?f] v(6) sample_lookups(3) a(2) by simp
  moreover have "authenticateToken verify0 ?f three_pieces = Next (three_pieces\<lparr>user := Some alice\<rparr>)"
    using piece [OF sample_headers(4), of ?f] v(6) sample_lookups(3) a(2) by simp
  ultimately show ?thesis by blast
qed

text \<open>
  The specification takes a token from a \<open>Bearer\<close> header only and quotes other messages.
  In the sample store the header \<open>Basic t-alice\<close> authenticates \<open>alice\<close>, the header
  \<open>Basic forged\<close> is answered \<open>Invalid token.\<close>, not as a missing token, and the three
  messages are not the quoted strings.
\<close>

theorem scheme_word_is_not_read:
  "authorization (basic ''t-alice'') = Some ''Basic t-alice''
   \<and> authenticateToken verify0 (User_findById env0 0 db0) (basic ''t-alice'')
       = Next ((basic ''t-alice'')\<lparr>user := Some alice\<rparr>)
   \<and> authenticateToken verify0 (User_findById env0 0 db0) (basic ''forged'')
       = Respond (err 401 ''Invalid token.'')
   \<and> authenticateToken verify0 (User_findById env0 0 db0) anon
       = Respond (err 401 ''Access denied. No token provided.'')
   \<and> err 401 ''Access denied. No token provided.'' \<noteq> err 401 ''no token provided.''
   \<and> err 401 ''Invalid token.'' \<noteq> err 401 ''invalid token.''
   \<and> err 401 ''Token expired.'' \<noteq> err 401 ''token expired.''"
proof -
  have t: "token_of (authorization (basic ''t-alice'')) = Some ''t-alice''"
      "token_of (authorization (basic ''forged'')) = Some ''forged''"
      "token_of (authorization anon) = None"
    by (simp_all add: basic_def anon_def token_of_def nth_opt_def)
  have v: "verify0 ''t-alice'' = Inr [(''id'', JStr ''a1'')]"
      "verify0 ''forged'' = Inl (Exn ''JsonWebTokenError'' [])"
    by (simp_all add: verify0_def)
  have "authenticateToken verify0 (User_findById env0 0 db0) (basic ''t-alice'')
       = Next ((basic ''t-alice'')\<lparr>user := Some alice\<rparr>)"
    by (simp add: authenticateToken_def t v sample_lookups alice_def)
  moreover have "authenticateToken verify0 (User_findById env0 0 db0) (basic ''forged'')
       = Respond (err 401 ''Invalid token.'')"
    by (simp add: authenticateToken_def t v on_auth_error_def name_of_def)
  moreover have "authenticateToken verify0 (User_findById env0 0 db0) anon
       = Respond (err 401 ''Access denied. No token provided.'')"
    by (simp add: authenticateToken_def t)
  moreover have "authorization (basic ''t-alice'') = Some ''Basic t-alice''"
    by (simp add: basic_def anon_def)
  ultimately show ?thesis by (simp add: err_def)
qed



subsection \<open>The authorization middleware\<close>

text \<open>
  C10. A request that reaches \<open>requireAdmin\<close> or \<open>requireOwnership\<close> with no identity
  attached is answered 401 \<open>Authentication required.\<close>; a 403 from either middleware is
  only sent to a request that carries an identity.
\<close>

theorem identity_required_before_forbidden:
  "(user req = None \<longrightarrow>
      requireAdmin req = Respond (err 401 ''Authentication required.'')
      \<and> requireOwnership r req = Respond (err 401 ''Authentication required.''))
   \<and> (\<forall>resp. requireAdmin req = Respond resp \<and> status resp = 403 \<longrightarrow> user req \<noteq> None)
   \<and> (\<forall>resp. requireOwnership r req = Respond resp \<and> status resp = 403 \<longrightarrow> user req \<noteq> None)"
  by (auto simp: requireAdmin_def requireOwnership_def err_def split: option.splits if_splits)

theorem identity_required_before_forbidden_witness:
  "user anon = None
   \<and> requireAdmin anon = Respond (err 401 ''Authentication required.'')
   \<and> requireOwnership (Some ''a1'') anon = Respond (err 401 ''Authentication required.'')
   \<and> requireAdmin (anon\<lparr>user := Some alice\<rparr>) = Respond (err 403 ''Admin access required.'')
   \<and> user (anon\<lparr>user := Some alice\<rparr>) \<noteq> None"
proof -
  have a: "user anon = None" by (simp add: anon_def)
  have b: "requireAdmin (anon\<lparr>user := Some alice\<rparr>) = Respond (err 403 ''Admin access required.'')"
    by (simp add: requireAdmin_def anon_def alice_def)
  have c: "status (err 403 ''Admin access required.'') = 403" by (simp add: err_def)
  from identity_required_before_forbidden [of anon "Some ''a1''"] a
  have d: "requireAdmin anon = Respond (err 401 ''Authentication required.'')
      \<and> requireOwnership (Some ''a1'') anon = Respond (err 401 ''Authentication required.'')"
    by blast
  from identity_required_before_forbidden [of "anon\<lparr>user := Some alice\<rparr>" "Some ''a1''"] b c
  have e: "user (anon\<lparr>user := Some alice\<rparr>) \<noteq> None" by blast
  from a b d e show ?thesis by blast
qed

subsection \<open>Ownership of a data record\<close>

text \<open>
  C1. The specification lets the owner of a record, and an admin, read, update and delete
  it; \<open>requireOwnership\<close>, the ownership check of the middleware, does the same. The handlers
  of \<open>GET\<close>, \<open>PUT\<close> and \<open>DELETE /api/data/:id\<close> do not call it: they compare the record's
  owner with the identity's id and never read the role. In the sample store the active
  admin asks for the record \<open>d1\<close> of \<open>alice\<close>: \<open>requireOwnership\<close> lets the request pass, and
  each of the three routes, entered with the identity attached or through
  \<open>authenticateToken\<close> with the admin's token, answers 403 \<open>Access denied\<close>.
\<close>

theorem admin_is_refused:
  "role admin = ''admin'' \<and> isActive admin \<and> user' cpu \<noteq> uid admin
   \<and> find (\<lambda>d. did d = ''d1'') (datas db0) = Some cpu
   \<and> requireOwnership (Some (user' cpu)) (by_user admin) = Next (by_user admin)
   \<and> get_data env0 db0 (by_user admin) = (err 403 ''Access denied'', db0)
   \<and> put_data env0 db0 (by_user admin) = (err 403 ''Access denied'', db0)
   \<and> delete_data env0 db0 (by_user admin) = (err 403 ''Access denied'', db0)
   \<and> route verify0 get_data env0 db0 (bearer ''t-admin'') = (err 403 ''Access denied'', db0)
   \<and> route verify0 put_data env0 db0 (bearer ''t-admin'') = (err 403 ''Access denied'', db0)
   \<and> route verify0 delete_data env0 db0 (bearer ''t-admin'') = (err 403 ''Access denied'', db0)"
proof -
  have r: "role admin = ''admin''" "isActive admin" by (simp_all add: admin_def)
  have i: "params_id (by_user admin) = ''d1''" "user (by_user admin) = Some admin"
    by (simp_all add: by_user_def anon_def)
  have f: "Data_findById ev 0 db0 ''d1'' = Inr (Some cpu)"
    if "castObjectId ev (JStr ''d1'') = Some ''d1''" "\<not> fails ev 0" for ev
    using that by (simp add: Data_findById_def db0_def sample_fields)
  have p: "populate db0 cpu = (cpu, Some (''a1'', ''Alice'', ''alice@example.com''))"
    by (simp add: populate_def db0_def sample_fields)
  have own: "requireOwnership (Some (user' cpu)) (by_user admin) = Next (by_user admin)"
    by (simp add: requireOwnership_def i r)
  have h: "get_data ev db0 req = (err 403 ''Access denied'', db0)
      \<and> put_data ev db0 req = (err 403 ''Access denied'', db0)
      \<and> delete_data ev db0 req = (err 403 ''Access denied'', db0)"
    if "castObjectId ev (JStr ''d1'') = Some ''d1''" "\<not> fails ev 0"
      "params_id req = ''d1''" "user req = Some admin" for ev req
    using that f [OF that(1,2)]
    by (simp add: get_data_def put_data_def delete_data_def p sample_fields)
  have auth: "authenticateToken verify0 (User_findById env0 0 db0) (bearer ''t-admin'')
      = Next ((bearer ''t-admin'')\<lparr>user := Some admin\<rparr>)"
    by (simp add: authenticateToken_def bearer_def anon_def token_of_def nth_opt_def
        verify0_def sample_lookups r)
  have l: "castObjectId (later env0) (JStr ''d1'') = Some ''d1''" "\<not> fails (later env0) 0"
    by (simp_all add: later_def env0_def)
  have j: "params_id ((bearer ''t-admin'')\<lparr>user := Some admin\<rparr>) = ''d1''"
      "user ((bearer ''t-admin'')\<lparr>user := Some admin\<rparr>) = Some admin"
    by (simp_all add: bearer_def anon_def)
  have d: "find (\<lambda>d. did d = ''d1'') (datas db0) = Some cpu"
    by (simp add: db0_def sample_fields)
  from h [of env0 "by_user admin"] h [OF l j] i auth r own d
  show ?thesis by (simp add: route_def env0_fields sample_fields)
qed

subsection \<open>Deleting the account\<close>

text \<open>
  C2. \<open>DELETE /api/user/account\<close>, behind \<open>authenticateToken\<close>, sends the same response and
  leaves the same store for any two request bodies, hence for any two values of
  \<open>password\<close> and for a body without it.
\<close>

theorem delete_account_ignores_body:
  "route verify delete_account ev st (req\<lparr>body := b1\<rparr>)
     = route verify delete_account ev st (req\<lparr>body := b2\<rparr>)"
  by (auto simp: route_def delete_account_def authenticateToken_def Let_def
      split: option.splits sum.splits step.splits)

theorem delete_account_ignores_body_witness:
  "route verify0 delete_account env0 db0 ((bearer ''t-alice'')\<lparr>body := [(''password'', JStr ''guess'')]\<rparr>)
     = route verify0 delete_account env0 db0 ((bearer ''t-alice'')\<lparr>body := []\<rparr>)
   \<and> route verify0 delete_account env0 db0 ((bearer ''t-alice'')\<lparr>body := []\<rparr>)
     = (\<lparr>status = 200, sent = Message ''Account deleted successfully''\<rparr>,
        \<lparr>users = [bob, admin], datas = []\<rparr>)"
proof -
  have "route verify0 delete_account env0 db0 ((bearer ''t-alice'')\<lparr>body := []\<rparr>)
     = (\<lparr>status = 200, sent = Message ''Account deleted successfully''\<rparr>,
        \<lparr>users = [bob, admin], datas = []\<rparr>)"
    by (simp add: route_def delete_account_def authenticateToken_def token_of_def nth_opt_def
        bearer_def anon_def verify0_def field_def User_findById_def later_def
        Data_deleteMany_user_def User_findByIdAndDelete_def
        env0_def db0_def alice_def bob_def admin_def cpu_def mem_def)
  with delete_account_ignores_body [where verify = verify0 and ev = env0 and st = db0
      and req = "bearer ''t-alice''" and ?b1.0 = "[(''password'', JStr ''guess'')]" and ?b2.0 = "[]"]
  show ?thesis by blast
qed

lemma found_is_stored: "Data_findById ev k st i = Inr (Some d) \<Longrightarrow> d \<in> set (datas st)"
  by (auto simp: Data_findById_def split: option.splits if_splits dest: find_member)

text \<open>
  C5. \<open>DELETE /api/user/account\<close>, for a request that carries the identity \<open>u\<close>. When
  both store operations go through, the answer is 200, every data record whose owner is
  \<open>u\<close> is gone, the other records are untouched and the user document is removed. The
  records go first: whatever operation fails, the user document is not removed while a
  record of \<open>u\<close> remains. After a 200 no lookup by id, by anyone, returns a record owned by
  \<open>u\<close>.
\<close>

theorem delete_account_removes_data_first:
  assumes "user req = Some u"
  shows "(\<not> fails ev 0 \<and> \<not> fails ev 1 \<longrightarrow>
            delete_account ev st req
              = (\<lparr>status = 200, sent = Message ''Account deleted successfully''\<rparr>,
                 \<lparr>users = delete_first (\<lambda>x. uid x = uid u) (users st),
                  datas = filter (\<lambda>d. user' d \<noteq> uid u) (datas st)\<rparr>))
     \<and> (users (snd (delete_account ev st req)) \<noteq> users st \<longrightarrow>
            filter (\<lambda>d. user' d = uid u) (datas (snd (delete_account ev st req))) = [])
     \<and> (status (fst (delete_account ev st req)) = 200 \<longrightarrow>
            filter (\<lambda>d. user' d = uid u) (datas (snd (delete_account ev st req))) = []
            \<and> (\<forall>ev' k i d. Data_findById ev' k (snd (delete_account ev st req)) i = Inr (Some d)
                  \<longrightarrow> user' d \<noteq> uid u))"
proof -
  have gone: "filter (\<lambda>d. user' d = uid u) (filter (\<lambda>d. user' d \<noteq> uid u) xs) = []" for xs
    by (induction xs) auto
  show ?thesis
    using assms gone
    by (auto simp: delete_account_def Data_deleteMany_user_def User_findByIdAndDelete_def
        internal_def err_def dest!: found_is_stored)
qed

theorem delete_account_removes_data_first_witness:
  "delete_account env0 db0 (by_user alice)
     = (\<lparr>status = 200, sent = Message ''Account deleted successfully''\<rparr>,
        \<lparr>users = [bob, admin], datas = []\<rparr>)
   \<and> delete_account (env0\<lparr>fails := (\<lambda>k. k = 1)\<rparr>) db0 (by_user alice)
     = (internal, \<lparr>users = [alice, bob, admin], datas = []\<rparr>)"
proof -
  have u: "user (by_user alice) = Some alice" by (simp add: by_user_def)
  have f: "\<not> fails env0 0 \<and> \<not> fails env0 1" by (simp add: env0_fields)
  have v: "delete_first (\<lambda>x. uid x = uid alice) (users db0) = [bob, admin]"
      "filter (\<lambda>d. user' d \<noteq> uid alice) (datas db0) = []"
    by (simp_all add: db0_def sample_fields)
  have "delete_account (env0\<lparr>fails := (\<lambda>k. k = 1)\<rparr>) db0 (by_user alice)
     = (internal, \<lparr>users = [alice, bob, admin], datas = []\<rparr>)"
    by (simp add: delete_account_def by_user_def Data_deleteMany_user_def
        User_findByIdAndDelete_def db0_def sample_fields)
  with delete_account_removes_data_first [OF u, of env0 db0] f v show ?thesis by simp
qed

subsection \<open>Creating a data record\<close>

text \<open>
  C7. \<open>POST /api/data\<close> answers 400 and leaves the store as it was when the category is
  not one of the five category strings, and when the value is not a number or is a
  negative number.
\<close>

theorem post_data_rejects_bad_input:
  "(field (body req) ''category'' \<notin> JStr ` set validCategories \<longrightarrow>
      status (fst (post_data ev st req)) = 400 \<and> snd (post_data ev st req) = st)
   \<and> ((\<forall>n. field (body req) ''value'' = JNum n \<longrightarrow> n < 0) \<longrightarrow>
      status (fst (post_data ev st req)) = 400 \<and> snd (post_data ev st req) = st)"
  by (auto simp: post_data_def err_def Let_def split: json.splits)

theorem post_data_rejects_bad_input_witness:
  "status (fst (post_data env0 db0 bad_category)) = 400 \<and> snd (post_data env0 db0 bad_category) = db0
   \<and> status (fst (post_data env0 db0 bad_value)) = 400 \<and> snd (post_data env0 db0 bad_value) = db0"
proof -
  have c: "field (body bad_category) ''category'' \<notin> JStr ` set validCategories"
    by (simp add: bad_category_def by_user_def anon_def field_def validCategories_def)
  have v: "\<forall>n. field (body bad_value) ''value'' = JNum n \<longrightarrow> n < 0"
    by (simp add: bad_value_def by_user_def anon_def field_def)
  from post_data_rejects_bad_input [of bad_category env0 db0] c
    post_data_rejects_bad_input [of bad_value env0 db0] v
  show ?thesis by blast
qed

lemma catch_post_status: "status (catch_post e) \<noteq> 201"
  by (simp add: catch_post_def invalid_def internal_def err_def)

lemma new_Data_user: "new_Data req c n = Inr dr \<Longrightarrow> \<exists>u. user req = Some u \<and> n_user dr = uid u"
  by (auto simp: new_Data_def Let_def split: sum.splits option.splits)

lemma save_appends:
  "save ev k st dr = Inr (d, st') \<Longrightarrow>
     d = doc_of ev dr \<and> st' = st\<lparr>datas := datas st @ [d]\<rparr> \<and> newId ev \<notin> did ` set (datas st)"
  by (auto simp: save_def split: if_splits)

lemma create_effect:
  assumes "create ev st req c n = (r, st')"
  shows "st' = st \<and> status r \<noteq> 201
     \<or> (\<exists>u d. user req = Some u \<and> user' d = uid u \<and> did d = newId ev
            \<and> st' = st\<lparr>datas := datas st @ [d]\<rparr>
            \<and> (status r = 201 \<longrightarrow>
                 sent r = DataMessage ''Data record created successfully'' (Some (populate st' d))))"
proof (cases "new_Data req c n")
  case (Inl e)
  with assms show ?thesis by (auto simp: create_def catch_post_status)
next
  case dr: (Inr dr)
  show ?thesis
  proof (cases "save ev 0 st dr")
    case (Inl e)
    with assms dr show ?thesis by (auto simp: create_def catch_post_status)
  next
    case (Inr w)
    then obtain d s where w: "save ev 0 st dr = Inr (d, s)" by (cases w) auto
    from save_appends [OF w] new_Data_user [OF dr]
    have "\<exists>u. user req = Some u \<and> user' d = uid u \<and> did d = newId ev
          \<and> s = st\<lparr>datas := datas st @ [d]\<rparr>"
      by (auto simp: doc_of_def)
    with assms dr w show ?thesis
      by (auto simp: create_def catch_post_status split: if_splits)
  qed
qed

lemma post_data_effect:
  assumes "post_data ev st req = (r, st')"
  shows "st' = st \<and> status r \<noteq> 201
     \<or> (\<exists>u d. user req = Some u \<and> user' d = uid u \<and> did d = newId ev
            \<and> st' = st\<lparr>datas := datas st @ [d]\<rparr>
            \<and> (status r = 201 \<longrightarrow>
                 sent r = DataMessage ''Data record created successfully'' (Some (populate st' d))))"
proof -
  consider (refused) "st' = st" "status r = 400"
    | (made) c n where "create ev st req c n = (r, st')"
    using assms
    by (auto simp: post_data_def err_def Let_def split: if_splits json.splits)
  then show ?thesis
  proof cases
    case refused
    then show ?thesis by simp
  next
    case made
    from create_effect [OF made] show ?thesis .
  qed
qed

lemma find_update_first:
  "(\<And>y. P y \<Longrightarrow> P (f y)) \<Longrightarrow> find P (update_first P f xs) = map_option f (find P xs)"
  by (induction xs) auto

lemma update_first_found:
  "find P xs = Some d \<Longrightarrow> update_first P f xs = update_first P (\<lambda>_. f d) xs"
  by (induction xs) (auto split: if_splits)

lemma map_update_first:
  "(\<And>y. g (f y) = g y) \<Longrightarrow> map g (update_first P f xs) = map g xs"
  by (induction xs) auto

lemma apply_patch_keeps:
  "did (apply_patch p d) = did d" "user' (apply_patch p d) = user' d"
  "source (apply_patch p d) = source d" "version (apply_patch p d) = version d"
  by (simp_all add: apply_patch_def)

lemma put_data_keeps:
  "map user' (datas (snd (put_data ev st req))) = map user' (datas st)
   \<and> map did (datas (snd (put_data ev st req))) = map did (datas st)"
proof -
  have "snd (put_data ev st req) = st
      \<or> (\<exists>x p. snd (put_data ev st req)
            = st\<lparr>datas := update_first (\<lambda>d. did d = x) (apply_patch p) (datas st)\<rparr>)"
    by (auto simp: put_data_def Data_findByIdAndUpdate_def
        split: sum.splits option.splits stop.splits if_splits)
  then show ?thesis
    by (auto simp: map_update_first apply_patch_keeps)
qed

text \<open>
  C9. \<open>POST /api/data\<close> either leaves the store as it was (and does not answer 201) or
  appends one record, whose \<open>user\<close> is the id of the request's identity; a 201 carries that
  record. \<open>PUT /api/data/:id\<close>, whatever its body and its outcome, leaves the \<open>user\<close> and
  the \<open>_id\<close> of every stored record as they were.
\<close>

theorem user_reference_set_once:
  "(\<forall>r st'. post_data ev st req = (r, st') \<longrightarrow>
       st' = st \<and> status r \<noteq> 201
       \<or> (\<exists>u d. user req = Some u \<and> user' d = uid u \<and> did d = newId ev
              \<and> st' = st\<lparr>datas := datas st @ [d]\<rparr>
              \<and> (status r = 201 \<longrightarrow>
                   sent r = DataMessage ''Data record created successfully''
                              (Some (populate st' d)))))
   \<and> map user' (datas (snd (put_data ev st req))) = map user' (datas st)
   \<and> map did (datas (snd (put_data ev st req))) = map did (datas st)"
  using post_data_effect [of ev st req] put_data_keeps [of ev st req] by blast

lemma run_new_load:
  "post_data env0 db0 new_load
     = (\<lparr>status = 201,
         sent = DataMessage ''Data record created successfully''
                  (Some (load, Some (''a1'', ''Alice'', ''alice@example.com'')))\<rparr>,
        \<lparr>users = [alice, bob, admin], datas = [cpu, mem, load]\<rparr>)"
proof -
  have b: "field (body new_load) ''title'' = JStr '' Load ''"
      "field (body new_load) ''category'' = JStr ''metrics''"
      "field (body new_load) ''value'' = JNum 42"
      "field (body new_load) ''unit'' = JStr ''%''"
      "field (body new_load) ''description'' = JUndefined"
      "field (body new_load) ''tags'' = JUndefined"
      "field (body new_load) ''isPublic'' = JUndefined"
      "field (body new_load) ''metadata'' = JUndefined"
      "user new_load = Some alice"
    by (simp_all add: new_load_def by_user_def anon_def field_def)
  have t: "trim '' Load '' = ''Load''" "trim ''%'' = ''%''"
    by (simp_all add: trim_def is_space_def)
  have n: "new_Data new_load ''metrics'' 42
      = Inr \<lparr>n_title = ''Load'', n_description = [], n_category = ''metrics'', n_value = 42,
             n_unit = ''%'', n_tags = [], n_isPublic = JBool False, n_user = ''a1'',
             n_source = JStr ''manual''\<rparr>"
    by (simp add: new_Data_def b t str_trim_def sample_fields)
  have d: "doc_of env0 \<lparr>n_title = ''Load'', n_description = [], n_category = ''metrics'',
             n_value = 42, n_unit = ''%'', n_tags = [], n_isPublic = JBool False, n_user = ''a1'',
             n_source = JStr ''manual''\<rparr> = load"
    by (simp add: doc_of_def env0_fields castString_def castBoolean_def load_def)
  have s: "save env0 0 db0 \<lparr>n_title = ''Load'', n_description = [], n_category = ''metrics'',
             n_value = 42, n_unit = ''%'', n_tags = [], n_isPublic = JBool False, n_user = ''a1'',
             n_source = JStr ''manual''\<rparr>
      = Inr (load, db0\<lparr>datas := datas db0 @ [load]\<rparr>)"
    by (simp add: save_def d validate_new_def check_title_def check_description_def
        castString_def castBoolean_def env0_fields db0_def sample_fields)
  have l: "user' load = ''a1''" by (simp add: load_def)
  have c: "create env0 db0 new_load ''metrics'' 42
      = (\<lparr>status = 201,
          sent = DataMessage ''Data record created successfully''
                   (Some (populate (db0\<lparr>datas := datas db0 @ [load]\<rparr>) load))\<rparr>,
         db0\<lparr>datas := datas db0 @ [load]\<rparr>)"
    by (simp add: create_def n s env0_fields)
  have e: "populate \<lparr>users = [alice, bob, admin], datas = [cpu, mem, load]\<rparr> load
      = (load, Some (''a1'', ''Alice'', ''alice@example.com''))"
    by (simp add: populate_def sample_fields l)
  have f: "db0\<lparr>datas := datas db0 @ [load]\<rparr>
      = \<lparr>users = [alice, bob, admin], datas = [cpu, mem, load]\<rparr>"
    by (simp add: db0_def)
  show ?thesis
    by (simp add: post_data_def b validCategories_def c e f)
qed

theorem user_reference_set_once_witness:
  "post_data env0 db0 new_load
     = (\<lparr>status = 201,
         sent = DataMessage ''Data record created successfully''
                  (Some (load, Some (''a1'', ''Alice'', ''alice@example.com'')))\<rparr>,
        \<lparr>users = [alice, bob, admin], datas = [cpu, mem, load]\<rparr>)
   \<and> (\<exists>d. user' d = uid alice
         \<and> \<lparr>users = [alice, bob, admin], datas = [cpu, mem, load]\<rparr> = db0\<lparr>datas := datas db0 @ [d]\<rparr>)
   \<and> map user' (datas (snd (put_data env0 db0 reassign))) = [''a1'', ''a1'']"
proof -
  let ?r = "\<lparr>status = 201,
         sent = DataMessage ''Data record created successfully''
                  (Some (load, Some (''a1'', ''Alice'', ''alice@example.com'')))\<rparr>"
  let ?s = "\<lparr>users = [alice, bob, admin], datas = [cpu, mem, load]\<rparr>"
  have u: "user new_load = Some alice" by (simp add: new_load_def by_user_def)
  have "?s \<noteq> db0 \<or> status ?r = 201" by simp
  with user_reference_set_once [of env0 db0 new_load] run_new_load u
  have a: "\<exists>d. user' d = uid alice \<and> ?s = db0\<lparr>datas := datas db0 @ [d]\<rparr>"
    by auto
  have "map user' (datas db0) = [''a1'', ''a1'']"
    by (simp add: db0_def sample_fields)
  with user_reference_set_once [of env0 db0 reassign]
  have b: "map user' (datas (snd (put_data env0 db0 reassign))) = [''a1'', ''a1'']"
    by simp
  from run_new_load a b show ?thesis by blast
qed

subsection \<open>Partial update\<close>

lemma and_then_Inr: "and_then x f = Inr p \<Longrightarrow> \<exists>v. x = Inr v \<and> f v = Inr p"
  by (cases x) (auto simp: and_then_def)

lemma opt_trim_absent: "opt_trim JUndefined = Inr r \<Longrightarrow> r = None"
  by (simp add: opt_trim_def)

lemma opt_enum_absent: "opt_enum a m JUndefined = Inr r \<Longrightarrow> r = None"
  by (simp add: opt_enum_def)

lemma opt_value_absent: "opt_value JUndefined = Inr r \<Longrightarrow> r = None"
  by (simp add: opt_value_def)

lemma opt_tags_absent: "opt_tags JUndefined = Inr r \<Longrightarrow> r = None"
  by (simp add: opt_tags_def)

lemma updateFields_absent:
  assumes "updateFields b = Inr p"
  shows "(field b ''title'' = JUndefined \<longrightarrow> set_title p = None)
     \<and> (field b ''description'' = JUndefined \<longrightarrow> set_description p = None)
     \<and> (field b ''category'' = JUndefined \<longrightarrow> set_category p = None)
     \<and> (field b ''value'' = JUndefined \<longrightarrow> set_value p = None)
     \<and> (field b ''unit'' = JUndefined \<longrightarrow> set_unit p = None)
     \<and> (field b ''tags'' = JUndefined \<longrightarrow> set_tags p = None)
     \<and> (field b ''status'' = JUndefined \<longrightarrow> set_status p = None)
     \<and> (field b ''isPublic'' = JUndefined \<longrightarrow> set_isPublic p = None)"
proof -
  from assms obtain t ds c v un tg s where
    t: "opt_trim (field b ''title'') = Inr t" and
    ds: "opt_trim (field b ''description'') = Inr ds" and
    c: "opt_enum validCategories ''Invalid category'' (field b ''category'') = Inr c" and
    v: "opt_value (field b ''value'') = Inr v" and
    un: "opt_trim (field b ''unit'') = Inr un" and
    tg: "opt_tags (field b ''tags'') = Inr tg" and
    s: "opt_enum validStatuses ''Invalid status'' (field b ''status'') = Inr s" and
    p: "p = \<lparr>set_title = t, set_description = ds, set_category = c, set_value = v,
            set_unit = un, set_tags = tg, set_status = s,
            set_isPublic = opt_any (field b ''isPublic'')\<rparr>"
    unfolding updateFields_def by (fastforce dest!: and_then_Inr)
  show ?thesis
    using t ds c v un tg s
    by (auto simp: p opt_any_def dest: opt_trim_absent opt_enum_absent opt_value_absent opt_tags_absent)
qed

lemma apply_patch_absent:
  "set_title p = None \<Longrightarrow> title (apply_patch p d) = title d"
  "set_description p = None \<Longrightarrow> description (apply_patch p d) = description d"
  "set_category p = None \<Longrightarrow> category (apply_patch p d) = category d"
  "set_value p = None \<Longrightarrow> value' (apply_patch p d) = value' d"
  "set_unit p = None \<Longrightarrow> unit' (apply_patch p d) = unit' d"
  "set_tags p = None \<Longrightarrow> tags (apply_patch p d) = tags d"
  "set_status p = None \<Longrightarrow> status' (apply_patch p d) = status' d"
  "set_isPublic p = None \<Longrightarrow> isPublic (apply_patch p d) = isPublic d"
  by (simp_all add: apply_patch_def or_else_def)

lemma catch_put_status: "status (catch_put e) \<noteq> 200"
  by (simp add: catch_put_def invalid_def internal_def err_def)

lemma and_then_Inl:
  "and_then x f = Inl e \<Longrightarrow> x = Inl e \<or> (\<exists>v. x = Inr v \<and> f v = Inl e)"
  by (cases x) (auto simp: and_then_def)

lemma opt_replies:
  "opt_trim j \<noteq> Inl (Replied r)"
  "opt_tags j \<noteq> Inl (Replied r)"
  "opt_enum a m j = Inl (Replied r) \<Longrightarrow> status r = 400"
  "opt_value j = Inl (Replied r) \<Longrightarrow> status r = 400"
  by (auto simp: opt_trim_def opt_tags_def opt_enum_def opt_value_def err_def
      split: json.splits sum.splits if_splits)

lemma updateFields_replies: "updateFields b = Inl (Replied r) \<Longrightarrow> status r = 400"
  unfolding updateFields_def
  by (auto dest!: and_then_Inl simp: opt_replies dest: opt_replies(3,4))

lemma put_data_ok:
  assumes "put_data ev st req = (r, st')" and "status r = 200"
  shows "\<exists>x d p. castObjectId ev (JStr (params_id req)) = Some x
     \<and> find (\<lambda>d. did d = x) (datas st) = Some d
     \<and> updateFields (body req) = Inr p
     \<and> st' = st\<lparr>datas := update_first (\<lambda>d. did d = x) (apply_patch p) (datas st)\<rparr>
     \<and> r = \<lparr>status = 200, sent = DataMessage ''Data record updated successfully''
                (Some (populate st' (apply_patch p d)))\<rparr>"
proof -
  from assms obtain d where d: "Data_findById ev 0 st (params_id req) = Inr (Some d)"
    using catch_put_status
    by (auto simp: put_data_def err_def split: sum.splits option.splits)
  then obtain x where x: "castObjectId ev (JStr (params_id req)) = Some x"
    and f: "find (\<lambda>d. did d = x) (datas st) = Some d"
    by (auto simp: Data_findById_def split: option.splits if_splits)
  from assms d obtain u where u: "user req = Some u" "user' d = uid u"
    using catch_put_status
    by (auto simp: put_data_def err_def split: option.splits if_splits)
  from assms d u obtain p where p: "updateFields (body req) = Inr p"
    using catch_put_status updateFields_replies [of "body req"]
    by (auto simp: put_data_def split: sum.splits stop.splits)
  from assms d u p obtain d' where
    w: "Data_findByIdAndUpdate ev 1 st (params_id req) p = Inr (d', st')"
    and r: "r = \<lparr>status = 200, sent = DataMessage ''Data record updated successfully''
                (map_option (populate st') d')\<rparr>"
    using catch_put_status
    by (auto simp: put_data_def split: sum.splits prod.splits)
  from w x f have "d' = Some (apply_patch p d)"
    and "st' = st\<lparr>datas := update_first (\<lambda>d. did d = x) (apply_patch p) (datas st)\<rparr>"
    by (auto simp: Data_findByIdAndUpdate_def split: if_splits)
  with x f p r show ?thesis by auto
qed

text \<open>
  C6. A \<open>PUT /api/data/:id\<close> answered 200 has updated the first record with the id and no
  other document. Each of the eight fields the handler reads keeps its stored value when the
  body does not have it; \<open>_id\<close>, \<open>user\<close> and \<open>metadata\<close> are kept always. In particular a body
  that has \<open>status\<close> only leaves \<open>title\<close>, \<open>value\<close> and \<open>tags\<close>, and every other path but
  \<open>status\<close>, as they were. (The store's own \<open>updatedAt\<close> stamp is a clock reading and is not
  part of the document here.)
\<close>

theorem put_data_partial_update:
  assumes "put_data ev st req = (r, st')" and "status r = 200"
  shows "\<exists>x d d'. castObjectId ev (JStr (params_id req)) = Some x
     \<and> find (\<lambda>d. did d = x) (datas st) = Some d
     \<and> find (\<lambda>d. did d = x) (datas st') = Some d'
     \<and> sent r = DataMessage ''Data record updated successfully'' (Some (populate st' d'))
     \<and> datas st' = update_first (\<lambda>d. did d = x) (\<lambda>_. d') (datas st)
     \<and> users st' = users st
     \<and> (field (body req) ''title'' = JUndefined \<longrightarrow> title d' = title d)
     \<and> (field (body req) ''description'' = JUndefined \<longrightarrow> description d' = description d)
     \<and> (field (body req) ''category'' = JUndefined \<longrightarrow> category d' = category d)
     \<and> (field (body req) ''value'' = JUndefined \<longrightarrow> value' d' = value' d)
     \<and> (field (body req) ''unit'' = JUndefined \<longrightarrow> unit' d' = unit' d)
     \<and> (field (body req) ''tags'' = JUndefined \<longrightarrow> tags d' = tags d)
     \<and> (field (body req) ''status'' = JUndefined \<longrightarrow> status' d' = status' d)
     \<and> (field (body req) ''isPublic'' = JUndefined \<longrightarrow> isPublic d' = isPublic d)
     \<and> did d' = did d \<and> user' d' = user' d \<and> source d' = source d \<and> version d' = version d
     \<and> ((\<forall>k. k \<noteq> ''status'' \<longrightarrow> field (body req) k = JUndefined) \<longrightarrow>
           title d' = title d \<and> value' d' = value' d \<and> tags d' = tags d
           \<and> d' = d\<lparr>status' := status' d'\<rparr>)"
proof -
  from put_data_ok [OF assms] obtain x d p where
    x: "castObjectId ev (JStr (params_id req)) = Some x" and
    f: "find (\<lambda>d. did d = x) (datas st) = Some d" and
    p: "updateFields (body req) = Inr p" and
    st': "st' = st\<lparr>datas := update_first (\<lambda>d. did d = x) (apply_patch p) (datas st)\<rparr>" and
    r: "r = \<lparr>status = 200, sent = DataMessage ''Data record updated successfully''
                (Some (populate st' (apply_patch p d)))\<rparr>"
    by blast
  let ?d' = "apply_patch p d"
  have f': "find (\<lambda>d. did d = x) (datas st') = Some ?d'"
    using f by (simp add: st' find_update_first apply_patch_keeps)
  have upd: "datas st' = update_first (\<lambda>d. did d = x) (\<lambda>_. ?d') (datas st)"
    using update_first_found [OF f, of "apply_patch p"] by (simp add: st')
  have us: "users st' = users st" by (simp add: st')
  note ab = updateFields_absent [OF p]
  have only: "?d' = d\<lparr>status' := status' ?d'\<rparr>"
    if "\<forall>k. k \<noteq> ''status'' \<longrightarrow> field (body req) k = JUndefined"
  proof -
    from that ab have "set_title p = None" "set_description p = None" "set_category p = None"
      "set_value p = None" "set_unit p = None" "set_tags p = None" "set_isPublic p = None"
      by simp_all
    then show ?thesis by (simp add: apply_patch_def or_else_def)
  qed
  have fields: "(field (body req) ''title'' = JUndefined \<longrightarrow> title ?d' = title d)
     \<and> (field (body req) ''description'' = JUndefined \<longrightarrow> description ?d' = description d)
     \<and> (field (body req) ''category'' = JUndefined \<longrightarrow> category ?d' = category d)
     \<and> (field (body req) ''value'' = JUndefined \<longrightarrow> value' ?d' = value' d)
     \<and> (field (body req) ''unit'' = JUndefined \<longrightarrow> unit' ?d' = unit' d)
     \<and> (field (body req) ''tags'' = JUndefined \<longrightarrow> tags ?d' = tags d)
     \<and> (field (body req) ''status'' = JUndefined \<longrightarrow> status' ?d' = status' d)
     \<and> (field (body req) ''isPublic'' = JUndefined \<longrightarrow> isPublic ?d' = isPublic d)"
    using ab by (simp add: apply_patch_absent)
  have only': "(\<forall>k. k \<noteq> ''status'' \<longrightarrow> field (body req) k = JUndefined) \<longrightarrow>
           title ?d' = title d \<and> value' ?d' = value' d \<and> tags ?d' = tags d
           \<and> ?d' = d\<lparr>status' := status' ?d'\<rparr>"
    using only fields by simp
  have s: "sent r = DataMessage ''Data record updated successfully'' (Some (populate st' ?d'))"
    by (simp add: r)
  from x f f' s upd us fields only' show ?thesis
    by (intro exI [of _ x] exI [of _ d] exI [of _ ?d']) (simp add: apply_patch_keeps)
qed

lemma run_status_only:
  "put_data env0 db0 status_only
     = (\<lparr>status = 200,
         sent = DataMessage ''Data record updated successfully''
                  (Some (cpu\<lparr>status' := ''inactive''\<rparr>, Some (''a1'', ''Alice'', ''alice@example.com'')))\<rparr>,
        \<lparr>users = [alice, bob, admin], datas = [cpu\<lparr>status' := ''inactive''\<rparr>, mem]\<rparr>)"
proof -
  have p: "updateFields (body status_only)
      = Inr \<lparr>set_title = None, set_description = None, set_category = None, set_value = None,
             set_unit = None, set_tags = None, set_status = Some ''inactive'', set_isPublic = None\<rparr>"
    by (simp add: status_only_def by_user_def anon_def updateFields_def and_then_def opt_trim_def
        opt_enum_def opt_value_def opt_tags_def opt_any_def field_def validStatuses_def)
  have q: "apply_patch \<lparr>set_title = None, set_description = None, set_category = None,
             set_value = None, set_unit = None, set_tags = None, set_status = Some ''inactive'',
             set_isPublic = None\<rparr> d = d\<lparr>status' := ''inactive''\<rparr>" for d
    by (simp add: apply_patch_def or_else_def)
  have i: "params_id status_only = ''d1''" "user status_only = Some alice"
    by (simp_all add: status_only_def by_user_def anon_def)
  show ?thesis
    by (simp add: put_data_def p q i Data_findById_def Data_findByIdAndUpdate_def
        validate_patch_def populate_def env0_fields db0_def sample_fields)
qed

theorem put_data_partial_update_witness:
  "put_data env0 db0 status_only
     = (\<lparr>status = 200,
         sent = DataMessage ''Data record updated successfully''
                  (Some (cpu\<lparr>status' := ''inactive''\<rparr>, Some (''a1'', ''Alice'', ''alice@example.com'')))\<rparr>,
        \<lparr>users = [alice, bob, admin], datas = [cpu\<lparr>status' := ''inactive''\<rparr>, mem]\<rparr>)
   \<and> (\<exists>d d'. find (\<lambda>d. did d = ''d1'') (datas db0) = Some d
         \<and> find (\<lambda>d. did d = ''d1'') [cpu\<lparr>status' := ''inactive''\<rparr>, mem] = Some d'
         \<and> title d' = title d \<and> value' d' = value' d \<and> tags d' = tags d
         \<and> d' = d\<lparr>status' := status' d'\<rparr>)"
proof -
  let ?r = "\<lparr>status = 200,
         sent = DataMessage ''Data record updated successfully''
                  (Some (cpu\<lparr>status' := ''inactive''\<rparr>, Some (''a1'', ''Alice'', ''alice@example.com'')))\<rparr>"
  let ?s = "\<lparr>users = [alice, bob, admin], datas = [cpu\<lparr>status' := ''inactive''\<rparr>, mem]\<rparr>"
  note run = run_status_only
  have ok: "status ?r = 200" by simp
  have only: "\<forall>k. k \<noteq> ''status'' \<longrightarrow> field (body status_only) k = JUndefined"
    by (simp add: status_only_def by_user_def anon_def field_def)
  have c: "castObjectId env0 (JStr (params_id status_only)) = Some ''d1''"
    by (simp add: env0_fields status_only_def by_user_def anon_def)
  from put_data_partial_update [OF run ok] obtain x d d' where
    x: "castObjectId env0 (JStr (params_id status_only)) = Some x" and
    d: "find (\<lambda>d. did d = x) (datas db0) = Some d" and
    d': "find (\<lambda>d. did d = x) (datas ?s) = Some d'" and
    o: "(\<forall>k. k \<noteq> ''status'' \<longrightarrow> field (body status_only) k = JUndefined) \<longrightarrow>
           title d' = title d \<and> value' d' = value' d \<and> tags d' = tags d
           \<and> d' = d\<lparr>status' := status' d'\<rparr>"
    by blast
  from x c have "x = ''d1''" by simp
  with d d' o only
  have "find (\<lambda>d. did d = ''d1'') (datas db0) = Some d
         \<and> find (\<lambda>d. did d = ''d1'') [cpu\<lparr>status' := ''inactive''\<rparr>, mem] = Some d'
         \<and> title d' = title d \<and> value' d' = value' d \<and> tags d' = tags d
         \<and> d' = d\<lparr>status' := status' d'\<rparr>"
    by simp
  then have "\<exists>d d'. find (\<lambda>d. did d = ''d1'') (datas db0) = Some d
         \<and> find (\<lambda>d. did d = ''d1'') [cpu\<lparr>status' := ''inactive''\<rparr>, mem] = Some d'
         \<and> title d' = title d \<and> value' d' = value' d \<and> tags d' = tags d
         \<and> d' = d\<lparr>status' := status' d'\<rparr>"
    by blast
  with run show ?thesis by blast
qed

subsection \<open>Pagination\<close>

lemma limit_docs_length: "1 \<le> l \<Longrightarrow> length (limit_docs l xs) \<le> nat l"
  by (simp add: limit_docs_def)

lemma window_length:
  "window ev (Some l) sk xs = Inr ys \<Longrightarrow> 1 \<le> l \<Longrightarrow> length ys \<le> nat l"
  by (auto simp: window_def store_num_def limit_docs_length split: option.splits if_splits)

lemma ceil_div_pos: "1 \<le> l \<Longrightarrow> ceil_div t (Some l) = Num \<lceil>real t / real_of_int l\<rceil>"
  by (simp add: ceil_div_def)

text \<open>
  C8, as the two list routes have it. When the \<open>limit\<close> parameter parses to an integer
  \<open>L\<close> with \<open>1 \<le> L\<close>, every page that \<open>GET /api/data\<close> or \<open>GET /api/user/search\<close> returns
  holds at most \<open>L\<close> items, and its envelope echoes the parsed page, the limit \<open>L\<close> and the
  number of matching documents as total, with \<open>pages\<close> the ceiling of total over \<open>L\<close>.
\<close>

theorem page_within_limit:
  assumes "int_param (query req) ''limit'' 10 = Some L" and "1 \<le> L"
  shows "(\<forall>r st' items pg. get_data_list ev st req = (r, st') \<and> sent r = DataPage items pg \<longrightarrow>
            length items \<le> nat L
            \<and> page pg = int_param (query req) ''page'' 1
            \<and> limit pg = Some L
            \<and> pages pg = Num \<lceil>real (total pg) / real_of_int L\<rceil>
            \<and> (\<exists>u hit. user req = Some u
                  \<and> search_test ev (map_of (query req) ''search'') = Inr hit
                  \<and> total pg = length (filter (\<lambda>d. user' d = uid u
                        \<and> given (query req) ''category'' (category d)
                        \<and> given (query req) ''status'' (status' d) \<and> hit d) (datas st))))
     \<and> (\<forall>r st' items pg. search_users ev st req = (r, st') \<and> sent r = UserPage items pg \<longrightarrow>
            length items \<le> nat L
            \<and> page pg = int_param (query req) ''page'' 1
            \<and> limit pg = Some L
            \<and> pages pg = Num \<lceil>real (total pg) / real_of_int L\<rceil>
            \<and> (\<exists>s f. map_of (query req) ''query'' = Some s \<and> regExp ev (trim s) = Some f
                  \<and> total pg = length (filter (\<lambda>u. f (name u) \<or> f (email u)
                        \<or> f (firstName u) \<or> f (lastName u)) (users st))))"
proof -
  have a: "length items \<le> nat L
            \<and> page pg = int_param (query req) ''page'' 1
            \<and> limit pg = Some L
            \<and> pages pg = Num \<lceil>real (total pg) / real_of_int L\<rceil>
            \<and> (\<exists>u hit. user req = Some u
                  \<and> search_test ev (map_of (query req) ''search'') = Inr hit
                  \<and> total pg = length (filter (\<lambda>d. user' d = uid u
                        \<and> given (query req) ''category'' (category d)
                        \<and> given (query req) ''status'' (status' d) \<and> hit d) (datas st)))"
    if "get_data_list ev st req = (r, st')" "sent r = DataPage items pg" for r st' items pg
    using that assms
    by (auto simp: get_data_list_def Let_def internal_def err_def mk_pagination_def ceil_div_pos
        split: option.splits sum.splits if_splits dest!: window_length)
  have b: "length items \<le> nat L
            \<and> page pg = int_param (query req) ''page'' 1
            \<and> limit pg = Some L
            \<and> pages pg = Num \<lceil>real (total pg) / real_of_int L\<rceil>
            \<and> (\<exists>s f. map_of (query req) ''query'' = Some s \<and> regExp ev (trim s) = Some f
                  \<and> total pg = length (filter (\<lambda>u. f (name u) \<or> f (email u)
                        \<or> f (firstName u) \<or> f (lastName u)) (users st)))"
    if "search_users ev st req = (r, st')" "sent r = UserPage items pg" for r st' items pg
    using that assms
    by (auto simp: search_users_def Let_def internal_def err_def mk_pagination_def ceil_div_pos
        split: option.splits sum.splits if_splits dest!: window_length)
  from a b show ?thesis by blast
qed

lemma parse_samples: "parseInt ''1'' = Some 1" "parseInt ''0'' = Some 0"
  by (simp_all add: parseInt_def is_space_def digit_of_def)

lemma first_one_params:
  "int_param (query first_one) ''limit'' 10 = Some 1"
  "int_param (query first_one) ''page'' 1 = Some 1"
  "map_of (query first_one) ''search'' = None"
  "map_of (query first_one) ''sortBy'' = None"
  "map_of (query first_one) ''sortOrder'' = None"
  "map_of (query first_one) ''query'' = Some ''Alice''"
  "given (query first_one) ''category'' c" "given (query first_one) ''status'' c"
  "user first_one = Some alice"
  by (simp_all add: first_one_def by_user_def anon_def int_param_def parse_samples given_def)

lemma limit_zero_params:
  "int_param (query limit_zero) ''limit'' 10 = Some 0"
  "int_param (query limit_zero) ''page'' 1 = Some 1"
  "map_of (query limit_zero) ''search'' = None"
  "map_of (query limit_zero) ''sortBy'' = None"
  "map_of (query limit_zero) ''sortOrder'' = None"
  "given (query limit_zero) ''category'' c" "given (query limit_zero) ''status'' c"
  "user limit_zero = Some alice"
  by (simp_all add: limit_zero_def by_user_def anon_def int_param_def parse_samples given_def)

lemma run_first_one:
  "get_data_list env0 db0 first_one
     = (\<lparr>status = 200,
         sent = DataPage [populate db0 cpu]
                  \<lparr>page = Some 1, limit = Some 1, total = 2, pages = Num 2\<rparr>\<rparr>, db0)"
proof -
  have w: "window env0 (Some 1) (skip_of (Some 1) (Some 1)) [cpu, mem] = Inr [cpu]"
    by (simp add: window_def store_num_def skip_of_def limit_docs_def)
  have f: "filter (\<lambda>d. user' d = uid alice) (datas db0) = [cpu, mem]"
    by (simp add: db0_def sample_fields)
  show ?thesis
    by (simp add: get_data_list_def Let_def first_one_params search_test_def env0_fields f w
        mk_pagination_def ceil_div_def)
qed

lemma run_search_one:
  "search_users env0 db0 first_one
     = (\<lparr>status = 200,
         sent = UserPage [alice] \<lparr>page = Some 1, limit = Some 1, total = 1, pages = Num 1\<rparr>\<rparr>, db0)"
proof -
  have w: "window env0 (Some 1) (skip_of (Some 1) (Some 1)) [alice] = Inr [alice]"
    by (simp add: window_def store_num_def skip_of_def limit_docs_def)
  have t: "trim ''Alice'' = ''Alice''" by (simp add: trim_def is_space_def)
  have f: "filter (\<lambda>u. name u = ''Alice'' \<or> email u = ''Alice'' \<or> firstName u = ''Alice''
              \<or> lastName u = ''Alice'') (users db0) = [alice]"
    by (simp add: db0_def sample_fields)
  show ?thesis
    by (simp add: search_users_def Let_def first_one_params t env0_fields f w
        mk_pagination_def ceil_div_def)
qed

theorem page_within_limit_witness:
  "get_data_list env0 db0 first_one
     = (\<lparr>status = 200,
         sent = DataPage [populate db0 cpu]
                  \<lparr>page = Some 1, limit = Some 1, total = 2, pages = Num 2\<rparr>\<rparr>, db0)
   \<and> search_users env0 db0 first_one
     = (\<lparr>status = 200,
         sent = UserPage [alice] \<lparr>page = Some 1, limit = Some 1, total = 1, pages = Num 1\<rparr>\<rparr>, db0)
   \<and> length [populate db0 cpu] \<le> nat 1
   \<and> pages \<lparr>page = Some 1, limit = Some 1, total = 2, pages = Num 2\<rparr>
        = Num \<lceil>real (total \<lparr>page = Some 1, limit = Some 1, total = 2, pages = Num 2\<rparr>) / real_of_int 1\<rceil>
   \<and> length [alice] \<le> nat 1"
proof -
  have l: "int_param (query first_one) ''limit'' 10 = Some 1" by (rule first_one_params)
  have p: "(1::int) \<le> 1" by simp
  note th = page_within_limit [OF l p, of env0 db0]
  have s1: "sent \<lparr>status = 200,
         sent = DataPage [populate db0 cpu]
                  \<lparr>page = Some 1, limit = Some 1, total = 2, pages = Num 2\<rparr>\<rparr>
      = DataPage [populate db0 cpu] \<lparr>page = Some 1, limit = Some 1, total = 2, pages = Num 2\<rparr>"
    by simp
  have s2: "sent \<lparr>status = 200,
         sent = UserPage [alice] \<lparr>page = Some 1, limit = Some 1, total = 1, pages = Num 1\<rparr>\<rparr>
      = UserPage [alice] \<lparr>page = Some 1, limit = Some 1, total = 1, pages = Num 1\<rparr>"
    by simp
  from th [THEN conjunct1, rule_format, OF conjI, OF run_first_one s1]
  have a: "length [populate db0 cpu] \<le> nat 1
      \<and> pages \<lparr>page = Some 1, limit = Some 1, total = 2, pages = Num 2\<rparr>
        = Num \<lceil>real (total \<lparr>page = Some 1, limit = Some 1, total = 2, pages = Num 2\<rparr>) / real_of_int 1\<rceil>"
    by blast
  from th [THEN conjunct2, rule_format, OF conjI, OF run_search_one s2]
  have b: "length [alice] \<le> nat 1"
    by blast
  from run_first_one run_search_one a b show ?thesis by blast
qed

text \<open>
  The specification's invariant covers every limit. The routes hand \<open>parseInt(limit)\<close> to the store
  unchecked, and the store reads a limit of zero as no limit: with \<open>limit=0\<close> the two records
  of \<open>alice\<close> come back on a page whose limit is 0.
\<close>

theorem limit_zero_returns_everything:
  "int_param (query limit_zero) ''limit'' 10 = Some 0
   \<and> get_data_list env0 db0 limit_zero
     = (\<lparr>status = 200,
         sent = DataPage [populate db0 cpu, populate db0 mem]
                  \<lparr>page = Some 1, limit = Some 0, total = 2, pages = Infinity\<rparr>\<rparr>, db0)
   \<and> \<not> length [populate db0 cpu, populate db0 mem] \<le> nat 0"
proof -
  have w: "window env0 (Some 0) (skip_of (Some 1) (Some 0)) [cpu, mem] = Inr [cpu, mem]"
    by (simp add: window_def store_num_def skip_of_def limit_docs_def)
  have f: "filter (\<lambda>d. user' d = uid alice) (datas db0) = [cpu, mem]"
    by (simp add: db0_def sample_fields)
  have "get_data_list env0 db0 limit_zero
     = (\<lparr>status = 200,
         sent = DataPage [populate db0 cpu, populate db0 mem]
                  \<lparr>page = Some 1, limit = Some 0, total = 2, pages = Infinity\<rparr>\<rparr>, db0)"
    by (simp add: get_data_list_def Let_def limit_zero_params search_test_def env0_fields f w
        mk_pagination_def ceil_div_def)
  then show ?thesis by (simp add: limit_zero_params)
qed

end
